theory Spec2Isabelle
  imports Main "HOL-Library.Multiset" "HOL-Library.Product_Lexorder"
begin

section \<open>JavaScript values used by the receipt handler\<close>

text \<open>
  The handler of \<^verbatim>\<open>api/validate-receipt.js\<close> reads a decoded JSON body. A property that
  is absent (\<^verbatim>\<open>undefined\<close>) or \<^verbatim>\<open>null\<close> is \<open>None\<close>; a property that is present is
  \<open>Some\<close> of its value. Properties are taken at the types of Apple's \<^verbatim>\<open>verifyReceipt\<close>
  response: \<^verbatim>\<open>status\<close> an integer, identifiers and dates strings, the three lists
  arrays of objects (no element is \<^verbatim>\<open>null\<close>).

  A string is the list of its UTF-16 code units, each a \<open>char\<close>: the strings of the model
  are those whose code units are all below 256. A number is a double; the numbers the
  handler computes with are \<^verbatim>\<open>NaN\<close>, the two infinities and doubles whose value is an
  integer.
\<close>

datatype js_error = JsError (name: string) (message: "string option")

definition TypeError :: js_error where
  "TypeError = JsError ''TypeError'' (Some ''Cannot read properties of undefined'')"

text \<open>\<^verbatim>\<open>x.p\<close> on \<^verbatim>\<open>undefined\<close> or \<^verbatim>\<open>null\<close> throws a TypeError; \<^verbatim>\<open>x?.p\<close> yields \<^verbatim>\<open>undefined\<close>.\<close>

definition dot :: "'a option \<Rightarrow> js_error + 'a" where
  "dot x = (case x of None \<Rightarrow> Inl TypeError | Some v \<Rightarrow> Inr v)"

definition qdot :: "'a option \<Rightarrow> ('a \<Rightarrow> 'b option) \<Rightarrow> 'b option" where
  "qdot x p = (case x of None \<Rightarrow> None | Some v \<Rightarrow> p v)"

definition bindE :: "'e + 'a \<Rightarrow> ('a \<Rightarrow> 'e + 'b) \<Rightarrow> 'e + 'b" where
  "bindE m f = (case m of Inl e \<Rightarrow> Inl e | Inr v \<Rightarrow> f v)"

text \<open>\<^verbatim>\<open>xs[0]\<close>: \<^verbatim>\<open>undefined\<close> on an empty array.\<close>

definition index0 :: "'a list \<Rightarrow> 'a option" where
  "index0 xs = (case xs of [] \<Rightarrow> None | x # _ \<Rightarrow> Some x)"

text \<open>\<^verbatim>\<open>s.includes(sub)\<close> on strings.\<close>

fun includes_str :: "string \<Rightarrow> string \<Rightarrow> bool" where
  "includes_str [] sub = (sub = [])"
| "includes_str (c # cs) sub = (take (length sub) (c # cs) = sub \<or> includes_str cs sub)"

subsection \<open>Numbers and \<^verbatim>\<open>parseInt\<close>\<close>

text \<open>
  \<open>Num n\<close> is the double whose value is the integer \<open>n\<close>. The zero with a minus sign is
  not told apart from \<open>Num 0\<close>: no operation of the handler tells them apart.
\<close>

datatype jsnum = NaN | Num int | Infinity | MinusInfinity

text \<open>The number of binary digits of \<open>n\<close>.\<close>

fun bitLength :: "nat \<Rightarrow> nat" where
  "bitLength n = (if n = 0 then 0 else Suc (bitLength (n div 2)))"

declare bitLength.simps [simp del]

text \<open>
  The double nearest to the integer \<open>n\<close>, ties going to the even significand of 53 bits;
  from \<open>2 ^ 1024\<close> on the rounded value is an infinity.
\<close>

definition toDouble :: "int \<Rightarrow> jsnum" where
  "toDouble n =
     (let a = nat \<bar>n\<bar> in
      if a < 2 ^ 53 then Num n
      else
        let e = bitLength a - 53;
            q = a div 2 ^ e;
            r = a mod 2 ^ e;
            q' = (if 2 ^ e < 2 * r \<or> (2 * r = 2 ^ e \<and> odd q) then q + 1 else q);
            v = int (q' * 2 ^ e)
        in if 2 ^ 1024 \<le> v then (if n < 0 then MinusInfinity else Infinity)
           else Num (if n < 0 then - v else v))"

text \<open>The white space that \<^verbatim>\<open>parseInt\<close> skips, among the code units below 256: tab, line
  feed, vertical tab, form feed, carriage return, space and the no-break space.\<close>

definition isWhiteSpace :: "char \<Rightarrow> bool" where
  "isWhiteSpace c = (of_char c \<in> {9, 10, 11, 12, 13, 32, 160 :: nat})"

definition digitValue :: "char \<Rightarrow> nat option" where
  "digitValue c =
     (let n = (of_char c :: nat) in
      if 48 \<le> n \<and> n \<le> 57 then Some (n - 48)
      else if 97 \<le> n \<and> n \<le> 102 then Some (n - 87)
      else if 65 \<le> n \<and> n \<le> 70 then Some (n - 55)
      else None)"

text \<open>
  The longest prefix of digits of radix \<open>R\<close>, read as a number; \<open>None\<close> when the prefix
  is empty.
\<close>

fun parseDigits :: "nat \<Rightarrow> string \<Rightarrow> int option \<Rightarrow> int option" where
  "parseDigits R [] acc = acc"
| "parseDigits R (c # cs) acc =
     (case digitValue c of
        None \<Rightarrow> acc
      | Some d \<Rightarrow>
          if d < R
          then parseDigits R cs (Some ((case acc of None \<Rightarrow> 0 | Some a \<Rightarrow> a * int R) + int d))
          else acc)"

text \<open>
  \<^verbatim>\<open>parseInt(string)\<close> with no radix: leading white space is skipped, then an optional
  sign, then an optional \<^verbatim>\<open>0x\<close> prefix selecting radix 16, then the digits. No digit gives
  \<^verbatim>\<open>NaN\<close>; otherwise the result is the double nearest to the integer that the digits
  write (V8 reads all of them).
\<close>

definition parseInt :: "string \<Rightarrow> jsnum" where
  "parseInt inputString =
     (let S = dropWhile isWhiteSpace inputString;
          sign = (if take 1 S = ''-'' then - 1 else 1 :: int);
          S1 = (if take 1 S = ''+'' \<or> take 1 S = ''-'' then drop 1 S else S);
          stripPrefix = (take 2 S1 = ''0x'' \<or> take 2 S1 = ''0X'');
          R = (if stripPrefix then 16 else 10);
          S2 = (if stripPrefix then drop 2 S1 else S1)
      in case parseDigits R S2 None of
           None \<Rightarrow> NaN
         | Some mathInt \<Rightarrow> toDouble (sign * mathInt))"

text \<open>\<^verbatim>\<open>parseInt(x.p)\<close> of a property that may be absent: \<^verbatim>\<open>undefined\<close> is first turned
  into the string \<^verbatim>\<open>"undefined"\<close>.\<close>

definition parseIntProp :: "string option \<Rightarrow> jsnum" where
  "parseIntProp v = parseInt (case v of None \<Rightarrow> ''undefined'' | Some s \<Rightarrow> s)"

text \<open>\<^verbatim>\<open>a - b\<close> and \<^verbatim>\<open>a > b\<close> on numbers: the difference of two doubles is the double
  nearest to the exact difference.\<close>

definition js_minus :: "jsnum \<Rightarrow> jsnum \<Rightarrow> jsnum" where
  "js_minus a b =
     (case (a, b) of
        (NaN, _) \<Rightarrow> NaN
      | (_, NaN) \<Rightarrow> NaN
      | (Num x, Num y) \<Rightarrow> toDouble (x - y)
      | (Num x, Infinity) \<Rightarrow> MinusInfinity
      | (Num x, MinusInfinity) \<Rightarrow> Infinity
      | (Infinity, Infinity) \<Rightarrow> NaN
      | (Infinity, _) \<Rightarrow> Infinity
      | (MinusInfinity, MinusInfinity) \<Rightarrow> NaN
      | (MinusInfinity, _) \<Rightarrow> MinusInfinity)"

definition js_greater :: "jsnum \<Rightarrow> jsnum \<Rightarrow> bool" where
  "js_greater a b =
     (case (a, b) of
        (NaN, _) \<Rightarrow> False
      | (_, NaN) \<Rightarrow> False
      | (Num x, Num y) \<Rightarrow> x > y
      | (Num x, Infinity) \<Rightarrow> False
      | (Num x, MinusInfinity) \<Rightarrow> True
      | (Infinity, Infinity) \<Rightarrow> False
      | (Infinity, _) \<Rightarrow> True
      | (MinusInfinity, _) \<Rightarrow> False)"

text \<open>
  The time value of \<^verbatim>\<open>new Date(t)\<close>: \<open>t\<close> itself, or \<^verbatim>\<open>NaN\<close> (an invalid date, which JSON
  writes as \<^verbatim>\<open>null\<close>) when \<open>t\<close> is not finite or is beyond 8.64e15 milliseconds.
\<close>

definition newDate :: "jsnum \<Rightarrow> jsnum" where
  "newDate t =
     (case t of
        Num n \<Rightarrow> if \<bar>n\<bar> \<le> 8640000000000000 then Num n else NaN
      | _ \<Rightarrow> NaN)"

subsection \<open>\<^verbatim>\<open>Array.prototype.sort\<close> with a comparator\<close>

text \<open>
  The sort of V8 for an array of fewer than 64 elements: the run that the array starts
  with is found (and reversed when it is strictly descending), then every other element
  is put into its place by binary insertion. The comparator is read through
  \<^verbatim>\<open>order < 0\<close>, and a result that is \<^verbatim>\<open>NaN\<close> counts as \<open>0\<close>. From 64 elements on V8
  sorts runs of 32 to 64 elements in this way and merges them; when the comparator is
  consistent the array it returns is again the one of this model, the stable sorted
  one.
\<close>

definition orderNegative :: "jsnum \<Rightarrow> bool" where
  "orderNegative order = js_greater (Num 0) order"

text \<open>The elements after \<open>previousElement\<close> that continue its run, and the others.\<close>

fun takeRun :: "('a \<Rightarrow> 'a \<Rightarrow> bool) \<Rightarrow> 'a \<Rightarrow> 'a list \<Rightarrow> 'a list \<times> 'a list" where
  "takeRun continues previousElement [] = ([], [])"
| "takeRun continues previousElement (currentElement # rest) =
     (if continues currentElement previousElement
      then (case takeRun continues currentElement rest of
              (run, rest') \<Rightarrow> (currentElement # run, rest'))
      else ([], currentElement # rest))"

definition countAndMakeRun :: "('a \<Rightarrow> 'a \<Rightarrow> jsnum) \<Rightarrow> 'a list \<Rightarrow> 'a list \<times> 'a list" where
  "countAndMakeRun comparefn workArray =
     (case workArray of
        [] \<Rightarrow> ([], [])
      | [x] \<Rightarrow> ([x], [])
      | elementHigh # elementLow # rest \<Rightarrow>
          if orderNegative (comparefn elementLow elementHigh)
          then (case takeRun (\<lambda>c p. orderNegative (comparefn c p)) elementLow rest of
                  (run, rest') \<Rightarrow> (rev (elementHigh # elementLow # run), rest'))
          else (case takeRun (\<lambda>c p. \<not> orderNegative (comparefn c p)) elementLow rest of
                  (run, rest') \<Rightarrow> (elementHigh # elementLow # run, rest')))"

text \<open>The binary search for the place of \<open>pivot\<close> in \<open>workArray\<close> between \<open>left\<close> and
  \<open>right\<close>; \<open>mid\<close> is always an index of the array.\<close>

function insertionPoint :: "('a \<Rightarrow> 'a \<Rightarrow> jsnum) \<Rightarrow> 'a \<Rightarrow> 'a list \<Rightarrow> nat \<Rightarrow> nat \<Rightarrow> nat" where
  "insertionPoint comparefn pivot workArray left right =
     (if left < right then
        (let mid = left + (right - left) div 2 in
         if orderNegative (comparefn pivot (workArray ! mid))
         then insertionPoint comparefn pivot workArray left mid
         else insertionPoint comparefn pivot workArray (mid + 1) right)
      else left)"
  by pat_completeness auto
termination
  by (relation "measure (\<lambda>(comparefn, pivot, workArray, left, right). right - left)") auto

declare insertionPoint.simps [simp del]

definition insertPivot :: "('a \<Rightarrow> 'a \<Rightarrow> jsnum) \<Rightarrow> 'a list \<Rightarrow> 'a \<Rightarrow> 'a list" where
  "insertPivot comparefn workArray pivot =
     (let left = insertionPoint comparefn pivot workArray 0 (length workArray)
      in take left workArray @ pivot # drop left workArray)"

definition binaryInsertionSort :: "('a \<Rightarrow> 'a \<Rightarrow> jsnum) \<Rightarrow> 'a list \<Rightarrow> 'a list \<Rightarrow> 'a list" where
  "binaryInsertionSort comparefn run rest = foldl (insertPivot comparefn) run rest"

definition sortBy :: "('a \<Rightarrow> 'a \<Rightarrow> jsnum) \<Rightarrow> 'a list \<Rightarrow> 'a list" where
  "sortBy comparefn xs =
     (case countAndMakeRun comparefn xs of
        (run, rest) \<Rightarrow> binaryInsertionSort comparefn run rest)"

section \<open>The data of a request\<close>

text \<open>
  One record type for the objects of \<^verbatim>\<open>latest_receipt_info\<close>, \<^verbatim>\<open>receipt.in_app\<close> and
  \<^verbatim>\<open>pending_renewal_info\<close>: the properties the handler reads from them.
\<close>

record transaction =
  product_id :: "string option"
  expires_date_ms :: "string option"
  transaction_id :: "string option"
  is_trial_period :: "string option"
  is_in_intro_offer_period :: "string option"
  purchase_date_ms :: "string option"
  auto_renew_status :: "string option"

record apple_receipt =
  bundle_id :: "string option"
  in_app :: "transaction list option"

record apple_response =
  status :: "int option"
  receipt :: "apple_receipt option"
  latest_receipt_info :: "transaction list option"
  pending_renewal_info :: "transaction list option"

datatype endpoint = PRODUCTION_URL | SANDBOX_URL

text \<open>
  What one \<^verbatim>\<open>fetch\<close> does: it rejects (network failure, or the abort of the 10 second
  timer), or it resolves to an HTTP response whose body decodes (\<^verbatim>\<open>response.json()\<close>)
  or fails to decode. A decoded body that is JSON \<^verbatim>\<open>null\<close> is \<open>None\<close>.
\<close>

datatype fetch_outcome =
    Rejects js_error
  | Resolves bool nat string "js_error + apple_response option"
      \<comment> \<open>\<^verbatim>\<open>response.ok\<close>, \<^verbatim>\<open>response.status\<close>, \<^verbatim>\<open>response.statusText\<close>, \<^verbatim>\<open>response.json()\<close>\<close>

text \<open>The upstream: the outcome of the \<open>n\<close>-th call of a request (counted from 0), by
  endpoint and by the \<^verbatim>\<open>receipt-data\<close> posted. A deterministic stub ignores \<open>n\<close>.\<close>

type_synonym upstream = "nat \<Rightarrow> endpoint \<Rightarrow> string \<Rightarrow> fetch_outcome"

text \<open>The keys \<^verbatim>\<open>receiptData\<close>, \<^verbatim>\<open>bundleId\<close> and \<^verbatim>\<open>productId\<close> of \<^verbatim>\<open>req.body\<close>; the
  unprimed names are the handler's variables.\<close>

record request_body =
  receiptData' :: "string option"
  bundleId' :: "string option"
  productId' :: "string option"

text \<open>\<^verbatim>\<open>req.method\<close> and \<^verbatim>\<open>req.body\<close>.\<close>

record request =
  method' :: string
  body :: "request_body option"

datatype environment = production | sandbox

text \<open>The four object literals assigned to \<^verbatim>\<open>subscriptionInfo\<close>, each with its properties
  in the order of the source. A date is its time value.\<close>

datatype subscriptionInfo =
    ActiveSubscription "string option" jsnum "string option" environment bool bool
      \<comment> \<open>productId, expiresDate, transactionId, environment, isTrialPeriod, isIntroOfferPeriod\<close>
  | PastPurchase "string option" "string option" environment jsnum
      \<comment> \<open>productId, transactionId, environment, purchaseDate\<close>
  | PendingRenewal "string option" bool environment "string option"
      \<comment> \<open>productId, isPending, environment, autoRenewStatus\<close>
  | SandboxFallback string environment bool
      \<comment> \<open>productId, environment, fallback\<close>

record debug_info =
  hasLatestReceiptInfo :: bool
  hasInApp :: bool
  hasPendingRenewal :: bool

text \<open>The JSON object of a response; a key that the object does not have is \<open>None\<close>
  (for \<open>subscriptionInfo\<close>, also the value \<^verbatim>\<open>null\<close>). A primed name is the key
  without the prime.\<close>

record verdict =
  isValid :: "bool option"
  error' :: "string option"
  status' :: "int option"
  expired :: "bool option"
  environment' :: "environment option"
  subscriptionInfo' :: "subscriptionInfo option"
  timestamp :: "string option"
  debug :: "debug_info option"

record http_response =
  statusCode :: nat
  headers :: "(string \<times> string) list"
  payload :: "verdict option"

section \<open>The handler\<close>

text \<open>
  \<^verbatim>\<open>handler(req, res)\<close> is modelled by parts, in the order of the source. An exception is
  a value \<open>Inl error\<close>; the calls made to the upstream are logged, one endpoint per call;
  \<^verbatim>\<open>Date.now()\<close> and \<^verbatim>\<open>new Date().toISOString()\<close> are the parameters \<open>currentDate\<close> and
  \<open>isoNow\<close>; \<open>currentDate\<close> is a time value, an integer of at most 8.64e15 in magnitude,
  so that \<^verbatim>\<open>currentDate - gracePeriod\<close> is exact. Console output is left out.
\<close>

definition corsHeaders :: "(string \<times> string) list" where
  "corsHeaders =
     [(''Access-Control-Allow-Origin'', ''*''),
      (''Access-Control-Allow-Methods'', ''GET, POST, OPTIONS''),
      (''Access-Control-Allow-Headers'', ''Content-Type'')]"

definition noKeys :: verdict where
  "noKeys = \<lparr>isValid = None, error' = None, status' = None, expired = None,
     environment' = None, subscriptionInfo' = None, timestamp = None, debug = None\<rparr>"

text \<open>\<^verbatim>\<open>res.status(code).json(v)\<close> after the headers \<open>hs\<close> were set.\<close>

definition respond :: "nat \<Rightarrow> (string \<times> string) list \<Rightarrow> verdict \<Rightarrow> http_response" where
  "respond code hs v = \<lparr>statusCode = code, headers = hs, payload = Some v\<rparr>"

definition showDigit :: "nat \<Rightarrow> char" where
  "showDigit d = char_of (48 + d)"

fun showNat :: "nat \<Rightarrow> string" where
  "showNat n = (if n < 10 then [showDigit n] else showNat (n div 10) @ [showDigit (n mod 10)])"

declare showNat.simps [simp del]

subsection \<open>\<^verbatim>\<open>validateWithApple\<close> (lines 47 to 76)\<close>

definition validateWithApple ::
  "upstream \<Rightarrow> string \<Rightarrow> endpoint \<Rightarrow> endpoint list
     \<Rightarrow> (js_error + apple_response option) \<times> endpoint list" where
  "validateWithApple fetch receiptData url calls =
     (case fetch (length calls) url receiptData of
        Rejects error \<Rightarrow> (Inl error, calls @ [url])
      | Resolves ok st statusText js \<Rightarrow>
          if \<not> ok
          then (Inl (JsError ''Error'' (Some (''HTTP '' @ showNat st @ '': '' @ statusText))),
                calls @ [url])
          else (js, calls @ [url]))"

subsection \<open>Production first, then sandbox (lines 78 to 108)\<close>

text \<open>The body of the \<^verbatim>\<open>try\<close> of line 82: the production call, the read of
  \<^verbatim>\<open>response.status\<close>, and the call to the sandbox on status 21007.\<close>

definition tryProduction ::
  "upstream \<Rightarrow> string
     \<Rightarrow> (js_error + (apple_response option \<times> environment)) \<times> endpoint list" where
  "tryProduction fetch receiptData =
     (case validateWithApple fetch receiptData PRODUCTION_URL [] of
        (Inl error, calls) \<Rightarrow> (Inl error, calls)
      | (Inr response, calls) \<Rightarrow>
          (case dot response of
             Inl error \<Rightarrow> (Inl error, calls)
           | Inr r \<Rightarrow>
               if status r = Some 21007
               then (case validateWithApple fetch receiptData SANDBOX_URL calls of
                       (Inl error, calls') \<Rightarrow> (Inl error, calls')
                     | (Inr response', calls') \<Rightarrow> (Inr (response', sandbox), calls'))
               else (Inr (response, production), calls)))"

definition bothFailed :: http_response where
  "bothFailed =
     respond 500 corsHeaders
       (noKeys\<lparr>isValid := Some False, error' := Some ''Receipt validation failed with Apple''\<rparr>)"

text \<open>The \<^verbatim>\<open>try\<close> with its \<^verbatim>\<open>catch (prodError)\<close>: \<open>Inl\<close> is the response returned at line 103,
  \<open>Inr\<close> the values of \<^verbatim>\<open>response\<close> and \<^verbatim>\<open>environment\<close> at line 110.\<close>

definition selectEnvironment ::
  "upstream \<Rightarrow> string
     \<Rightarrow> (http_response + (apple_response option \<times> environment)) \<times> endpoint list" where
  "selectEnvironment fetch receiptData =
     (case tryProduction fetch receiptData of
        (Inr adopted, calls) \<Rightarrow> (Inr adopted, calls)
      | (Inl prodError, calls) \<Rightarrow>
          (case validateWithApple fetch receiptData SANDBOX_URL calls of
             (Inr response, calls') \<Rightarrow> (Inr (response, sandbox), calls')
           | (Inl sandboxError, calls') \<Rightarrow> (Inl bothFailed, calls')))"

subsection \<open>The status of the adopted response (lines 113 to 146)\<close>

definition statusMeanings :: "int \<Rightarrow> string option" where
  "statusMeanings = map_of
     [(21000, ''The App Store could not read the JSON object you provided.''),
      (21002, ''The data in the receipt-data property was malformed or missing.''),
      (21003, ''The receipt could not be authenticated.''),
      (21004, ''The shared secret you provided does not match the shared secret on file for your account.''),
      (21005, ''The receipt server is not currently available.''),
      (21006, ''This receipt is valid but the subscription has expired.''),
      (21007, ''This receipt is from the sandbox environment, but it was sent to the production environment for verification.''),
      (21008, ''This receipt is from the production environment, but it was sent to the sandbox environment for verification.''),
      (21010, ''This receipt could not be authorized. Treat this the same as if a purchase was never made.'')]"

text \<open>\<^verbatim>\<open>a || b\<close> on strings: \<open>b\<close> when \<open>a\<close> is \<^verbatim>\<open>undefined\<close> or empty.\<close>

definition orElse :: "string option \<Rightarrow> string \<Rightarrow> string" where
  "orElse a b = (case a of None \<Rightarrow> b | Some s \<Rightarrow> if s = [] then b else s)"

text \<open>\<open>Some\<close> is the response returned for a status that is not 0, \<open>None\<close> is falling
  through to line 148.\<close>

definition checkStatus :: "apple_response \<Rightarrow> http_response option" where
  "checkStatus response =
     (if status response \<noteq> Some 0 then
        (let statusMeaning = orElse (qdot (status response) statusMeanings) ''Unknown error'' in
         if status response = Some 21006
         then Some (respond 200 corsHeaders
                (noKeys\<lparr>isValid := Some False, error' := Some ''Subscription has expired'',
                   status' := status response, expired := Some True\<rparr>))
         else Some (respond 200 corsHeaders
                (noKeys\<lparr>isValid := Some False,
                   error' := Some (''Receipt validation failed: '' @ statusMeaning),
                   status' := status response\<rparr>)))
      else None)"

subsection \<open>The bundle id (lines 148 to 155)\<close>

definition checkBundleId :: "apple_response \<Rightarrow> http_response option" where
  "checkBundleId response =
     (if qdot (receipt response) bundle_id \<noteq> Some ''com.elevenstoic.app''
      then Some (respond 200 corsHeaders
             (noKeys\<lparr>isValid := Some False, error' := Some ''Bundle ID mismatch''\<rparr>))
      else None)"

subsection \<open>The subscription checks (lines 157 to 258)\<close>

text \<open>The state of the checks is the pair of \<^verbatim>\<open>isValidSubscription\<close> and
  \<^verbatim>\<open>subscriptionInfo\<close>; it starts as \<^verbatim>\<open>(false, null)\<close>.\<close>

type_synonym check_state = "bool \<times> subscriptionInfo option"

text \<open>The callbacks of \<^verbatim>\<open>filter\<close>, \<^verbatim>\<open>find\<close> and \<^verbatim>\<open>sort\<close>.\<close>

definition isMonthly :: "transaction \<Rightarrow> bool" where
  "isMonthly t = (product_id t = Some ''com.elevenstoic.monthly'')"

definition byExpiresDate :: "transaction \<Rightarrow> transaction \<Rightarrow> jsnum" where
  "byExpiresDate a b = js_minus (parseIntProp (expires_date_ms b)) (parseIntProp (expires_date_ms a))"

definition byPurchaseDate :: "transaction \<Rightarrow> transaction \<Rightarrow> jsnum" where
  "byPurchaseDate a b =
     js_minus (parseIntProp (purchase_date_ms b)) (parseIntProp (purchase_date_ms a))"

text \<open>\<^verbatim>\<open>x && x.length > 0\<close> for an array \<open>x\<close> that may be absent.\<close>

definition andLengthPositive :: "'a list option \<Rightarrow> js_error + bool" where
  "andLengthPositive x =
     (if x \<noteq> None then bindE (dot x) (\<lambda>xs. Inr (length xs > 0)) else Inr False)"

text \<open>Method 1 (lines 161 to 202).\<close>

definition method1 :: "apple_response \<Rightarrow> environment \<Rightarrow> int \<Rightarrow> js_error + check_state" where
  "method1 response environment currentDate =
     bindE (andLengthPositive (latest_receipt_info response)) (\<lambda>nonEmpty.
       if nonEmpty then
         bindE (dot (latest_receipt_info response)) (\<lambda>lri.
           let relevantTransactions = filter isMonthly lri in
           if length relevantTransactions > 0 then
             bindE (dot (index0 (sortBy byExpiresDate relevantTransactions)))
               (\<lambda>latestTransaction.
                  let expirationDate = parseIntProp (expires_date_ms latestTransaction);
                      gracePeriod = 5 * 60 * 1000
                  in if js_greater expirationDate (Num (currentDate - gracePeriod))
                     then Inr (True,
                            Some (ActiveSubscription
                              (product_id latestTransaction)
                              (newDate expirationDate)
                              (transaction_id latestTransaction)
                              environment
                              (is_trial_period latestTransaction = Some ''true'')
                              (is_in_intro_offer_period latestTransaction = Some ''true'')))
                     else Inr (False, None))
           else Inr (False, None))
       else Inr (False, None))"

text \<open>Method 2 (lines 204 to 226).\<close>

definition method2 :: "apple_response \<Rightarrow> environment \<Rightarrow> check_state \<Rightarrow> js_error + check_state" where
  "method2 response environment st =
     (if \<not> fst st \<and> qdot (receipt response) in_app \<noteq> None then
        bindE (dot (receipt response)) (\<lambda>rc.
        bindE (dot (in_app rc)) (\<lambda>inApp.
          let relevantPurchases = filter isMonthly inApp in
          if length relevantPurchases > 0 then
            bindE (dot (index0 (sortBy byPurchaseDate relevantPurchases)))
              (\<lambda>latestPurchase.
                 Inr (True,
                   Some (PastPurchase
                     (product_id latestPurchase)
                     (transaction_id latestPurchase)
                     environment
                     (newDate (parseIntProp (purchase_date_ms latestPurchase))))))
          else Inr st))
      else Inr st)"

text \<open>Method 3 (lines 228 to 246).\<close>

definition method3 :: "apple_response \<Rightarrow> environment \<Rightarrow> check_state \<Rightarrow> js_error + check_state" where
  "method3 response environment st =
     (if \<not> fst st \<and> pending_renewal_info response \<noteq> None \<and> environment = sandbox then
        bindE (dot (pending_renewal_info response)) (\<lambda>pri.
          let pendingRenewal = find isMonthly pri in
          if pendingRenewal \<noteq> None then
            bindE (dot pendingRenewal) (\<lambda>p.
              if auto_renew_status p = Some ''1''
              then Inr (True,
                     Some (PendingRenewal (product_id p) True environment (auto_renew_status p)))
              else Inr st)
          else Inr st)
      else Inr st)"

text \<open>The sandbox fallback (lines 248 to 258).\<close>

definition sandboxFallback :: "apple_response \<Rightarrow> environment \<Rightarrow> check_state \<Rightarrow> check_state" where
  "sandboxFallback response environment st =
     (if \<not> fst st \<and> environment = sandbox
         \<and> qdot (receipt response) bundle_id = Some ''com.elevenstoic.app''
      then (True, Some (SandboxFallback ''com.elevenstoic.monthly'' environment True))
      else st)"

definition checkSubscription ::
  "apple_response \<Rightarrow> environment \<Rightarrow> int \<Rightarrow> js_error + check_state" where
  "checkSubscription response environment currentDate =
     bindE (method1 response environment currentDate) (\<lambda>st1.
     bindE (method2 response environment st1) (\<lambda>st2.
     bindE (method3 response environment st2) (\<lambda>st3.
     Inr (sandboxFallback response environment st3))))"

subsection \<open>The final response (lines 260 to 280)\<close>

definition debugInfo :: "apple_response \<Rightarrow> js_error + debug_info" where
  "debugInfo response =
     bindE (andLengthPositive (latest_receipt_info response)) (\<lambda>l.
     bindE (if qdot (receipt response) in_app \<noteq> None
            then bindE (dot (receipt response)) (\<lambda>rc.
                 bindE (dot (in_app rc)) (\<lambda>inApp. Inr (length inApp > 0)))
            else Inr False) (\<lambda>i.
     bindE (andLengthPositive (pending_renewal_info response)) (\<lambda>p.
     Inr \<lparr>hasLatestReceiptInfo = l, hasInApp = i, hasPendingRenewal = p\<rparr>)))"

definition finalResponse ::
  "apple_response \<Rightarrow> environment \<Rightarrow> check_state \<Rightarrow> string \<Rightarrow> js_error + http_response" where
  "finalResponse response environment st isoNow =
     (let hs = (if fst st then corsHeaders @ [(''Cache-Control'', ''private, max-age=300'')]
                else corsHeaders);
          v = noKeys\<lparr>isValid := Some (fst st), environment' := Some environment,
                subscriptionInfo' := snd st, timestamp := Some isoNow\<rparr>
      in if environment = sandbox
         then bindE (debugInfo response) (\<lambda>d. Inr (respond 200 hs (v\<lparr>debug := Some d\<rparr>)))
         else Inr (respond 200 hs v))"

subsection \<open>From the adopted response to the response sent (lines 110 to 280)\<close>

definition classify ::
  "apple_response option \<Rightarrow> environment \<Rightarrow> int \<Rightarrow> string \<Rightarrow> js_error + http_response" where
  "classify response environment currentDate isoNow =
     bindE (dot response) (\<lambda>r.
       case checkStatus r of
         Some returned \<Rightarrow> Inr returned
       | None \<Rightarrow>
           (case checkBundleId r of
              Some returned \<Rightarrow> Inr returned
            | None \<Rightarrow>
                bindE (checkSubscription r environment currentDate) (\<lambda>st.
                  finalResponse r environment st isoNow)))"

subsection \<open>The outer \<^verbatim>\<open>try\<close> and its \<^verbatim>\<open>catch\<close> (lines 19 to 304)\<close>

definition tryBlock ::
  "request \<Rightarrow> upstream \<Rightarrow> int \<Rightarrow> string \<Rightarrow> (js_error + http_response) \<times> endpoint list" where
  "tryBlock req fetch currentDate isoNow =
     (case dot (body req) of
        Inl error \<Rightarrow> (Inl error, [])
      | Inr b \<Rightarrow>
          (case receiptData' b of
             None \<Rightarrow>
               (Inr (respond 400 corsHeaders
                  (noKeys\<lparr>isValid := Some False, error' := Some ''Receipt data is required''\<rparr>)), [])
           | Some receiptData \<Rightarrow>
               if receiptData = [] then
                 (Inr (respond 400 corsHeaders
                    (noKeys\<lparr>isValid := Some False, error' := Some ''Receipt data is required''\<rparr>)), [])
               else if bundleId' b \<noteq> Some ''com.elevenstoic.app'' then
                 (Inr (respond 400 corsHeaders
                    (noKeys\<lparr>isValid := Some False, error' := Some ''Invalid bundle ID''\<rparr>)), [])
               else
                 (case selectEnvironment fetch receiptData of
                    (Inl returned, calls) \<Rightarrow> (Inr returned, calls)
                  | (Inr (response, environment), calls) \<Rightarrow>
                      (classify response environment currentDate isoNow, calls))))"

definition catchBlock :: "js_error \<Rightarrow> http_response" where
  "catchBlock error =
     (if name error = ''AbortError'' then
        respond 408 corsHeaders
          (noKeys\<lparr>isValid := Some False,
             error' := Some ''Request timeout - Apple servers did not respond in time''\<rparr>)
      else if (case message error of None \<Rightarrow> False | Some m \<Rightarrow> includes_str m ''fetch'') then
        respond 502 corsHeaders
          (noKeys\<lparr>isValid := Some False, error' := Some ''Unable to connect to Apple servers''\<rparr>)
      else
        respond 500 corsHeaders
          (noKeys\<lparr>isValid := Some False,
             error' := Some ''Internal server error during validation''\<rparr>))"

text \<open>The handler: the response sent and the upstream calls made, in order.\<close>

definition handler ::
  "request \<Rightarrow> upstream \<Rightarrow> int \<Rightarrow> string \<Rightarrow> http_response \<times> endpoint list" where
  "handler req fetch currentDate isoNow =
     (if method' req = ''OPTIONS'' then
        (\<lparr>statusCode = 200, headers = corsHeaders, payload = None\<rparr>, [])
      else if method' req \<noteq> ''POST'' then
        (respond 405 corsHeaders (noKeys\<lparr>error' := Some ''Method not allowed''\<rparr>), [])
      else
        (case tryBlock req fetch currentDate isoNow of
           (Inr returned, calls) \<Rightarrow> (returned, calls)
         | (Inl error, calls) \<Rightarrow> (catchBlock error, calls)))"

section \<open>Requests, responses and stubs used as examples\<close>

definition exampleRequest :: request where
  "exampleRequest =
     \<lparr>method' = ''POST'',
      body = Some \<lparr>receiptData' = Some ''receipt'', bundleId' = Some ''com.elevenstoic.app'',
               productId' = Some ''com.elevenstoic.monthly''\<rparr>\<rparr>"

text \<open>A transaction of the monthly product that expires at \<open>e\<close>.\<close>

definition monthly :: "string \<Rightarrow> transaction" where
  "monthly e =
     \<lparr>product_id = Some ''com.elevenstoic.monthly'', expires_date_ms = Some e,
      transaction_id = Some ''1000000'', is_trial_period = Some ''false'',
      is_in_intro_offer_period = Some ''false'', purchase_date_ms = None,
      auto_renew_status = None\<rparr>"

text \<open>A purchase of the monthly product made at \<open>d\<close>.\<close>

definition purchase :: "string \<Rightarrow> transaction" where
  "purchase d =
     \<lparr>product_id = Some ''com.elevenstoic.monthly'', expires_date_ms = None,
      transaction_id = Some ''2000000'', is_trial_period = None,
      is_in_intro_offer_period = None, purchase_date_ms = Some d,
      auto_renew_status = None\<rparr>"

text \<open>A response that has the status \<open>s\<close> and nothing else.\<close>

definition bareResponse :: "int \<Rightarrow> apple_response" where
  "bareResponse s =
     \<lparr>status = Some s, receipt = None, latest_receipt_info = None,
      pending_renewal_info = None\<rparr>"

text \<open>A receipt of the app with no purchases listed, and the accepted response that
  holds it and the transactions \<open>lri\<close>.\<close>

definition ownReceipt :: apple_receipt where
  "ownReceipt = \<lparr>bundle_id = Some ''com.elevenstoic.app'', in_app = None\<rparr>"

definition accepted :: "transaction list option \<Rightarrow> apple_response" where
  "accepted lri =
     \<lparr>status = Some 0, receipt = Some ownReceipt, latest_receipt_info = lri,
      pending_renewal_info = None\<rparr>"

definition answers :: "apple_response \<Rightarrow> fetch_outcome" where
  "answers r = Resolves True 200 ''OK'' (Inr (Some r))"

definition timesOut :: fetch_outcome where
  "timesOut = Rejects (JsError ''AbortError'' (Some ''This operation was aborted''))"

definition unreachable :: fetch_outcome where
  "unreachable = Rejects (JsError ''TypeError'' (Some ''fetch failed''))"

text \<open>A deterministic stub: \<open>p\<close> is the outcome of every call to production, \<open>s\<close> of every
  call to the sandbox.\<close>

definition stub :: "fetch_outcome \<Rightarrow> fetch_outcome \<Rightarrow> upstream" where
  "stub p s n url receiptData = (case url of PRODUCTION_URL \<Rightarrow> p | SANDBOX_URL \<Rightarrow> s)"

text \<open>A request that passes the checks of lines 15 to 35 with the receipt \<open>receiptData\<close>.\<close>

definition passesInput :: "request \<Rightarrow> string \<Rightarrow> bool" where
  "passesInput req receiptData =
     (method' req = ''POST'' \<and> receiptData \<noteq> [] \<and>
      (case body req of
         None \<Rightarrow> False
       | Some b \<Rightarrow>
           receiptData' b = Some receiptData \<and> bundleId' b = Some ''com.elevenstoic.app''))"

text \<open>A verdict with its \<^verbatim>\<open>timestamp\<close> removed.\<close>

definition withoutTimestamp :: "http_response \<Rightarrow> http_response" where
  "withoutTimestamp r =
     r\<lparr>payload := (case payload r of None \<Rightarrow> None | Some v \<Rightarrow> Some (v\<lparr>timestamp := None\<rparr>))\<rparr>"

text \<open>An accepted response whose only subscription lapsed long ago, with the purchase
  still listed in the receipt.\<close>

definition expiredWithPurchase :: apple_response where
  "expiredWithPurchase =
     \<lparr>status = Some 0,
      receipt = Some \<lparr>bundle_id = Some ''com.elevenstoic.app'', in_app = Some [purchase ''1'']\<rparr>,
      latest_receipt_info = Some [monthly ''1'', monthly ''2''],
      pending_renewal_info = None\<rparr>"

text \<open>An accepted response whose only transaction has no \<^verbatim>\<open>expires_date_ms\<close>.\<close>

definition undatedWithPurchase :: apple_response where
  "undatedWithPurchase =
     \<lparr>status = Some 0,
      receipt = Some \<lparr>bundle_id = Some ''com.elevenstoic.app'', in_app = Some [purchase ''5'']\<rparr>,
      latest_receipt_info = Some [(monthly ''7'')\<lparr>expires_date_ms := None\<rparr>],
      pending_renewal_info = None\<rparr>"

text \<open>A transaction with none of the properties, one with its \<^verbatim>\<open>product_id\<close> only, and an
  accepted response from them: it has the three arrays and the receipt, and their objects
  lack every property but these.\<close>

definition bare :: transaction where
  "bare =
     \<lparr>product_id = None, expires_date_ms = None, transaction_id = None,
      is_trial_period = None, is_in_intro_offer_period = None, purchase_date_ms = None,
      auto_renew_status = None\<rparr>"

definition monthlyOnly :: transaction where
  "monthlyOnly = bare\<lparr>product_id := Some ''com.elevenstoic.monthly''\<rparr>"

definition sparse :: apple_response where
  "sparse =
     \<lparr>status = Some 0,
      receipt = Some \<lparr>bundle_id = Some ''com.elevenstoic.app'', in_app = Some [bare]\<rparr>,
      latest_receipt_info = Some [monthlyOnly, bare],
      pending_renewal_info = Some [monthlyOnly]\<rparr>"

text \<open>An upstream whose production answers 21007 and whose sandbox times out when called
  first (call 1 of the request) and answers when called again (call 2).\<close>

definition flaky :: upstream where
  "flaky n url receiptData =
     (case url of
        PRODUCTION_URL \<Rightarrow> answers (bareResponse 21007)
      | SANDBOX_URL \<Rightarrow> if n = 2 then answers (accepted None) else timesOut)"

text \<open>The two shapes of a verdict: a failure (\<^verbatim>\<open>isValid: false\<close> with an \<^verbatim>\<open>error\<close>, no
  \<^verbatim>\<open>environment\<close>), or the result of the subscription checks (\<^verbatim>\<open>isValid\<close>,
  \<^verbatim>\<open>environment\<close> and \<^verbatim>\<open>timestamp\<close>, no \<^verbatim>\<open>error\<close>).\<close>

definition wellFormed :: "verdict \<Rightarrow> bool" where
  "wellFormed v =
     ((isValid v = Some False \<and> error' v \<noteq> None \<and> environment' v = None \<and>
       subscriptionInfo' v = None)
      \<or> (isValid v \<noteq> None \<and> error' v = None \<and> environment' v \<noteq> None \<and>
          timestamp v \<noteq> None))"

section \<open>Properties of the parts\<close>

lemmas example_defs =
  exampleRequest_def monthly_def purchase_def bareResponse_def ownReceipt_def accepted_def
  answers_def timesOut_def unreachable_def stub_def passesInput_def

lemmas upstream_defs =
  validateWithApple_def tryProduction_def selectEnvironment_def dot_def bothFailed_def

subsection \<open>The sort and the three methods\<close>

text \<open>The sorted array is a rearrangement; each method returns a state and never throws:
  the guards of the source cover every property read.\<close>

lemmas sort_defs =
  sortBy_def countAndMakeRun_def binaryInsertionSort_def insertPivot_def
  insertionPoint.simps orderNegative_def

lemma sortBy_Nil: "sortBy c [] = []"
  by (simp add: sortBy_def countAndMakeRun_def binaryInsertionSort_def)

lemma takeRun_append: "takeRun P p xs = (run, rest) \<Longrightarrow> run @ rest = xs"
  by (induction xs arbitrary: p run rest) (auto split: if_splits prod.splits)

lemma countAndMakeRun_mset:
  "countAndMakeRun c xs = (run, rest) \<Longrightarrow> mset run + mset rest = mset xs"
  by (auto simp: countAndMakeRun_def split: list.splits if_splits prod.splits
      dest!: takeRun_append)

lemma insertionPoint_le:
  "left \<le> right \<Longrightarrow> left \<le> insertionPoint c pivot ws left right \<and>
     insertionPoint c pivot ws left right \<le> right"
proof (induction c pivot ws left right rule: insertionPoint.induct)
  case (1 c pivot ws left right)
  show ?case
  proof (cases "left < right")
    case False
    then show ?thesis using 1(3) by (simp add: insertionPoint.simps)
  next
    case True
    let ?mid = "left + (right - left) div 2"
    have m: "left \<le> ?mid" "?mid < right" using True by auto
    show ?thesis
    proof (cases "orderNegative (c pivot (ws ! ?mid))")
      case neg: True
      from 1(1) [OF True refl neg] m have "left \<le> insertionPoint c pivot ws left ?mid \<and>
         insertionPoint c pivot ws left ?mid \<le> ?mid" by simp
      then show ?thesis using True neg m
        by (subst (1 2) insertionPoint.simps) (simp add: Let_def)
    next
      case nneg: False
      from 1(2) [OF True refl nneg] m have "?mid + 1 \<le> insertionPoint c pivot ws (?mid + 1) right \<and>
         insertionPoint c pivot ws (?mid + 1) right \<le> right" by simp
      then show ?thesis using True nneg m
        by (subst (1 2) insertionPoint.simps) (simp add: Let_def)
    qed
  qed
qed

lemma mset_insertPivot: "mset (insertPivot c ws pivot) = add_mset pivot (mset ws)"
proof -
  have "mset (take n ws) + mset (drop n ws) = mset ws" for n
    by (metis append_take_drop_id mset_append)
  then show ?thesis by (simp add: insertPivot_def Let_def)
qed

lemma mset_binaryInsertionSort:
  "mset (binaryInsertionSort c run rest) = mset run + mset rest"
  unfolding binaryInsertionSort_def
  by (induction rest arbitrary: run) (auto simp: mset_insertPivot)

lemma mset_sortBy: "mset (sortBy c xs) = mset xs"
  by (auto simp: sortBy_def mset_binaryInsertionSort countAndMakeRun_mset split: prod.splits)

lemma set_sortBy: "set (sortBy c xs) = set xs"
  by (metis mset_sortBy set_mset_mset)

lemma length_sortBy: "length (sortBy c xs) = length xs"
  by (metis mset_sortBy size_mset)

lemma sortBy_Nil_iff: "sortBy c xs = [] \<longleftrightarrow> xs = []"
  using length_sortBy [of c xs] by (metis length_0_conv)

lemma index0_sortBy_None: "index0 (sortBy c xs) = None \<longleftrightarrow> xs = []"
  using sortBy_Nil_iff [of c xs] by (auto simp: index0_def split: list.splits)

lemma index0_sortBy_mem: "index0 (sortBy c xs) = Some t \<Longrightarrow> t \<in> set xs"
  using set_sortBy [of c xs] by (auto simp: index0_def split: list.splits)

lemma method1_unfold:
  "method1 response environment currentDate =
     Inr (case latest_receipt_info response of
            None \<Rightarrow> (False, None)
          | Some lri \<Rightarrow>
              (case index0 (sortBy byExpiresDate (filter isMonthly lri)) of
                 None \<Rightarrow> (False, None)
               | Some latestTransaction \<Rightarrow>
                   if js_greater (parseIntProp (expires_date_ms latestTransaction))
                        (Num (currentDate - 300000))
                   then (True,
                          Some (ActiveSubscription
                            (product_id latestTransaction)
                            (newDate (parseIntProp (expires_date_ms latestTransaction)))
                            (transaction_id latestTransaction)
                            environment
                            (is_trial_period latestTransaction = Some ''true'')
                            (is_in_intro_offer_period latestTransaction = Some ''true'')))
                   else (False, None)))"
proof (cases "latest_receipt_info response")
  case None
  then show ?thesis by (simp add: method1_def andLengthPositive_def bindE_def)
next
  case (Some lri)
  show ?thesis
  proof (cases "filter isMonthly lri = []")
    case True
    then show ?thesis using Some
      by (simp add: method1_def andLengthPositive_def bindE_def dot_def index0_def sortBy_Nil)
  next
    case False
    then have ne: "lri \<noteq> []" by auto
    from False obtain t where t: "index0 (sortBy byExpiresDate (filter isMonthly lri)) = Some t"
      using index0_sortBy_None [of byExpiresDate "filter isMonthly lri"] by auto
    show ?thesis using Some False ne t
      by (simp add: method1_def andLengthPositive_def bindE_def dot_def Let_def)
  qed
qed

lemma method2_unfold:
  "method2 response environment st =
     Inr (if fst st then st
          else case qdot (receipt response) in_app of
                 None \<Rightarrow> st
               | Some inApp \<Rightarrow>
                   (case index0 (sortBy byPurchaseDate (filter isMonthly inApp)) of
                      None \<Rightarrow> st
                    | Some latestPurchase \<Rightarrow>
                        (True,
                          Some (PastPurchase
                            (product_id latestPurchase)
                            (transaction_id latestPurchase)
                            environment
                            (newDate (parseIntProp (purchase_date_ms latestPurchase)))))))"
proof (cases "fst st \<or> qdot (receipt response) in_app = None")
  case True
  then show ?thesis by (auto simp: method2_def)
next
  case False
  then obtain rc inApp where rc: "receipt response = Some rc" and ia: "in_app rc = Some inApp"
    by (auto simp: qdot_def split: option.splits)
  show ?thesis
  proof (cases "filter isMonthly inApp = []")
    case True
    then show ?thesis using False rc ia
      by (simp add: method2_def bindE_def dot_def qdot_def index0_def sortBy_Nil)
  next
    case F: False
    then obtain t where t: "index0 (sortBy byPurchaseDate (filter isMonthly inApp)) = Some t"
      using index0_sortBy_None [of byPurchaseDate "filter isMonthly inApp"] by auto
    show ?thesis using False rc ia F t
      by (simp add: method2_def bindE_def dot_def qdot_def Let_def)
  qed
qed

lemma method3_unfold:
  "method3 response environment st =
     Inr (if fst st \<or> environment \<noteq> sandbox then st
          else case pending_renewal_info response of
                 None \<Rightarrow> st
               | Some pri \<Rightarrow>
                   (case find isMonthly pri of
                      None \<Rightarrow> st
                    | Some p \<Rightarrow>
                        if auto_renew_status p = Some ''1''
                        then (True,
                               Some (PendingRenewal (product_id p) True environment
                                 (auto_renew_status p)))
                        else st))"
  by (auto simp: method3_def bindE_def dot_def Let_def split: option.splits)

lemma debugInfo_unfold:
  "debugInfo response =
     Inr \<lparr>hasLatestReceiptInfo =
            (case latest_receipt_info response of None \<Rightarrow> False | Some xs \<Rightarrow> xs \<noteq> []),
          hasInApp =
            (case qdot (receipt response) in_app of None \<Rightarrow> False | Some xs \<Rightarrow> xs \<noteq> []),
          hasPendingRenewal =
            (case pending_renewal_info response of None \<Rightarrow> False | Some xs \<Rightarrow> xs \<noteq> [])\<rparr>"
  by (auto simp: debugInfo_def andLengthPositive_def bindE_def dot_def qdot_def
      split: option.splits)

subsection \<open>The handler on a request that passes the input checks\<close>

lemma handler_passesInput:
  assumes "passesInput req receiptData"
  shows "handler req fetch currentDate isoNow =
           (case selectEnvironment fetch receiptData of
              (Inl returned, calls) \<Rightarrow> (returned, calls)
            | (Inr (response, environment), calls) \<Rightarrow>
                (case classify response environment currentDate isoNow of
                   Inl error \<Rightarrow> (catchBlock error, calls)
                 | Inr returned \<Rightarrow> (returned, calls)))"
  using assms
  by (auto simp: passesInput_def handler_def tryBlock_def dot_def
      split: option.splits prod.splits sum.splits)

lemma classify_bad_status:
  assumes "status r \<noteq> Some 0"
  shows "classify (Some r) environment currentDate isoNow = Inr (the (checkStatus r))"
  using assms by (simp add: classify_def bindE_def dot_def checkStatus_def Let_def)

lemma exampleRequest_passes: "passesInput exampleRequest ''receipt''"
  by (simp add: example_defs)

lemmas parse_defs =
  parseIntProp_def parseInt_def isWhiteSpace_def digitValue_def toDouble_def newDate_def Let_def

subsection \<open>The first of a sorted array\<close>

lemma takeRun_rising:
  fixes k :: "'a \<Rightarrow> 'b::linorder"
  assumes "takeRun (\<lambda>cur prev. k prev < k cur) p xs = (run, rest)"
  shows "sorted_wrt (\<lambda>a b. k a < k b) (p # run)"
  using assms
proof (induction xs arbitrary: p run rest)
  case Nil
  then show ?case by simp
next
  case (Cons x xs)
  show ?case
  proof (cases "k p < k x")
    case False
    with Cons.prems show ?thesis by simp
  next
    case True
    then obtain run' where r: "takeRun (\<lambda>cur prev. k prev < k cur) x xs = (run', rest)"
      and run: "run = x # run'"
      using Cons.prems by (auto split: prod.splits)
    from Cons.IH [OF r] have s: "sorted_wrt (\<lambda>a b. k a < k b) (x # run')" .
    then have "\<forall>y\<in>set run'. k p < k y" using True by fastforce
    with s True show ?thesis unfolding run by simp
  qed
qed

lemma takeRun_falling:
  fixes k :: "'a \<Rightarrow> 'b::linorder"
  assumes "takeRun (\<lambda>cur prev. \<not> k prev < k cur) p xs = (run, rest)"
  shows "sorted_wrt (\<lambda>a b. k b \<le> k a) (p # run)"
  using assms
proof (induction xs arbitrary: p run rest)
  case Nil
  then show ?case by simp
next
  case (Cons x xs)
  show ?case
  proof (cases "k p < k x")
    case True
    with Cons.prems show ?thesis by simp
  next
    case False
    then obtain run' where r: "takeRun (\<lambda>cur prev. \<not> k prev < k cur) x xs = (run', rest)"
      and run: "run = x # run'"
      using Cons.prems by (auto split: prod.splits)
    from Cons.IH [OF r] have s: "sorted_wrt (\<lambda>a b. k b \<le> k a) (x # run')" .
    then have "\<forall>y\<in>set run'. k y \<le> k p" using False by fastforce
    with s False show ?thesis unfolding run by simp
  qed
qed

lemma takeRun_cong:
  assumes "\<And>a b. a \<in> set (p # xs) \<Longrightarrow> b \<in> set (p # xs) \<Longrightarrow> P a b = Q a b"
  shows "takeRun P p xs = takeRun Q p xs"
  using assms by (induction xs arbitrary: p) (auto split: prod.splits)

lemma countAndMakeRun_sorted:
  fixes k :: "'a \<Rightarrow> 'b::linorder"
  assumes cmp: "\<And>a b. a \<in> set xs \<Longrightarrow> b \<in> set xs \<Longrightarrow> orderNegative (c a b) \<longleftrightarrow> k b < k a"
      and "countAndMakeRun c xs = (run, rest)"
  shows "sorted_wrt (\<lambda>a b. k b \<le> k a) run"
proof (cases xs)
  case Nil
  with assms(2) show ?thesis by (simp add: countAndMakeRun_def)
next
  case (Cons hi ys)
  show ?thesis
  proof (cases ys)
    case Nil
    with Cons assms(2) show ?thesis by (auto simp: countAndMakeRun_def)
  next
    case (Cons lo zs)
    have xs: "xs = hi # lo # zs" using \<open>xs = hi # ys\<close> Cons by simp
    have t1: "takeRun (\<lambda>cur prev. orderNegative (c cur prev)) lo zs
        = takeRun (\<lambda>cur prev. k prev < k cur) lo zs"
      by (rule takeRun_cong) (use cmp xs in auto)
    have t2: "takeRun (\<lambda>cur prev. \<not> orderNegative (c cur prev)) lo zs
        = takeRun (\<lambda>cur prev. \<not> k prev < k cur) lo zs"
      by (rule takeRun_cong) (use cmp xs in auto)
    have n: "orderNegative (c lo hi) \<longleftrightarrow> k hi < k lo" using cmp xs by simp
    show ?thesis
    proof (cases "k hi < k lo")
      case True
      then obtain r where r: "takeRun (\<lambda>cur prev. k prev < k cur) lo zs = (r, rest)"
        and run: "run = rev (hi # lo # r)"
        using assms(2) n t1 unfolding xs countAndMakeRun_def by (auto split: prod.splits)
      from takeRun_rising [OF r] have "sorted_wrt (\<lambda>a b. k a < k b) (lo # r)" .
      then have "sorted_wrt (\<lambda>a b. k a < k b) (hi # lo # r)" using True by fastforce
      then have "sorted_wrt (\<lambda>a b. k b < k a) (rev (hi # lo # r))"
        unfolding sorted_wrt_rev .
      then show ?thesis unfolding run by (rule sorted_wrt_mono_rel [rotated]) auto
    next
      case False
      then obtain r where r: "takeRun (\<lambda>cur prev. \<not> k prev < k cur) lo zs = (r, rest)"
        and run: "run = hi # lo # r"
        using assms(2) n t2 unfolding xs countAndMakeRun_def by (auto split: prod.splits)
      from takeRun_falling [OF r] have s: "sorted_wrt (\<lambda>a b. k b \<le> k a) (lo # r)" .
      then have "\<forall>y\<in>set (lo # r). k y \<le> k hi" using False by fastforce
      with s show ?thesis unfolding run by simp
    qed
  qed
qed

lemma insertionPoint_splits:
  fixes k :: "'a \<Rightarrow> 'b::linorder"
  assumes cmp: "\<And>b. b \<in> set ws \<Longrightarrow> orderNegative (c pivot b) \<longleftrightarrow> k b < k pivot"
      and srt: "sorted_wrt (\<lambda>a b. k b \<le> k a) ws"
      and "left \<le> right" "right \<le> length ws"
      and "\<forall>i<left. k pivot \<le> k (ws ! i)"
      and "\<forall>i. right \<le> i \<and> i < length ws \<longrightarrow> k (ws ! i) < k pivot"
  shows "(\<forall>i<insertionPoint c pivot ws left right. k pivot \<le> k (ws ! i)) \<and>
         (\<forall>i. insertionPoint c pivot ws left right \<le> i \<and> i < length ws \<longrightarrow> k (ws ! i) < k pivot)"
  using assms
proof (induction c pivot ws left right rule: insertionPoint.induct)
  case (1 c pivot ws left right)
  note cmp = "1.prems"(1) and srt = "1.prems"(2)
  show ?case
  proof (cases "left < right")
    case False
    then have "left = right" using "1.prems"(3) by simp
    then show ?thesis using "1.prems" False by (subst (1 2) insertionPoint.simps) simp
  next
    case True
    let ?mid = "left + (right - left) div 2"
    have m: "left \<le> ?mid" "?mid < right" "?mid < length ws" using True "1.prems"(4) by auto
    have mem: "ws ! ?mid \<in> set ws" using m by simp
    show ?thesis
    proof (cases "orderNegative (c pivot (ws ! ?mid))")
      case neg: True
      then have lt: "k (ws ! ?mid) < k pivot" using cmp mem by simp
      have "\<forall>i. ?mid \<le> i \<and> i < length ws \<longrightarrow> k (ws ! i) < k pivot"
      proof (intro allI impI)
        fix i assume i: "?mid \<le> i \<and> i < length ws"
        then have "k (ws ! i) \<le> k (ws ! ?mid)"
          using srt by (cases "i = ?mid") (auto simp: sorted_wrt_iff_nth_less)
        with lt show "k (ws ! i) < k pivot" by simp
      qed
      with "1.IH"(1) [OF True refl neg cmp srt] m "1.prems"(5)
      have "(\<forall>i<insertionPoint c pivot ws left ?mid. k pivot \<le> k (ws ! i)) \<and>
         (\<forall>i. insertionPoint c pivot ws left ?mid \<le> i \<and> i < length ws \<longrightarrow> k (ws ! i) < k pivot)"
        by simp
      then show ?thesis using True neg
        by (subst (1 2) insertionPoint.simps) (simp add: Let_def)
    next
      case nneg: False
      then have ge: "k pivot \<le> k (ws ! ?mid)" using cmp mem by simp
      have "\<forall>i<?mid + 1. k pivot \<le> k (ws ! i)"
      proof (intro allI impI)
        fix i assume i: "i < ?mid + 1"
        then have "k (ws ! ?mid) \<le> k (ws ! i)"
          using srt m by (cases "i = ?mid") (auto simp: sorted_wrt_iff_nth_less)
        with ge show "k pivot \<le> k (ws ! i)" by simp
      qed
      with "1.IH"(2) [OF True refl nneg cmp srt] m "1.prems"(4,6)
      have "(\<forall>i<insertionPoint c pivot ws (?mid + 1) right. k pivot \<le> k (ws ! i)) \<and>
         (\<forall>i. insertionPoint c pivot ws (?mid + 1) right \<le> i \<and> i < length ws \<longrightarrow> k (ws ! i) < k pivot)"
        by simp
      then show ?thesis using True nneg
        by (subst (1 2) insertionPoint.simps) (simp add: Let_def)
    qed
  qed
qed

lemma insertPivot_sorted:
  fixes k :: "'a \<Rightarrow> 'b::linorder"
  assumes cmp: "\<And>b. b \<in> set ws \<Longrightarrow> orderNegative (c pivot b) \<longleftrightarrow> k b < k pivot"
      and srt: "sorted_wrt (\<lambda>a b. k b \<le> k a) ws"
  shows "sorted_wrt (\<lambda>a b. k b \<le> k a) (insertPivot c ws pivot)"
proof -
  let ?p = "insertionPoint c pivot ws 0 (length ws)"
  have e: "\<forall>i. length ws \<le> i \<and> i < length ws \<longrightarrow> k (ws ! i) < k pivot"
    by (simp add: not_less [symmetric])
  from insertionPoint_splits [where c = c and pivot = pivot and ws = ws and k = k
      and left = 0 and right = "length ws", OF cmp srt _ _ _ e]
  have lo: "\<forall>i<?p. k pivot \<le> k (ws ! i)"
    and hi: "\<forall>i. ?p \<le> i \<and> i < length ws \<longrightarrow> k (ws ! i) < k pivot"
    by auto
  have p: "?p \<le> length ws" using insertionPoint_le [of 0 "length ws" c pivot ws] by simp
  have a: "\<forall>x\<in>set (take ?p ws). k pivot \<le> k x"
    using lo p by (auto simp: in_set_conv_nth)
  have b: "\<forall>x\<in>set (drop ?p ws). k x \<le> k pivot"
  proof
    fix x assume "x \<in> set (drop ?p ws)"
    then obtain j where j: "j < length ws - ?p" "x = ws ! (?p + j)"
      by (auto simp: in_set_conv_nth)
    then have "?p + j < length ws" by linarith
    with hi have "k (ws ! (?p + j)) < k pivot" by simp
    then show "k x \<le> k pivot" using j by simp
  qed
  have s1: "sorted_wrt (\<lambda>a b. k b \<le> k a) (take ?p ws)"
    using srt by (rule sorted_wrt_take)
  have s2: "sorted_wrt (\<lambda>a b. k b \<le> k a) (drop ?p ws)"
    using srt by (rule sorted_wrt_drop)
  have c: "\<forall>x\<in>set (take ?p ws). \<forall>y\<in>set (drop ?p ws). k y \<le> k x"
    using srt by (metis append_take_drop_id sorted_wrt_append)
  show ?thesis
    using a b c s1 s2 by (auto simp: insertPivot_def Let_def sorted_wrt_append)
qed

lemma set_insertPivot: "set (insertPivot c ws pivot) = insert pivot (set ws)"
  by (metis mset_insertPivot set_mset_add_mset_insert set_mset_mset)

lemma binaryInsertionSort_sorted:
  fixes k :: "'a \<Rightarrow> 'b::linorder"
  assumes "\<And>a b. a \<in> set run \<union> set rest \<Longrightarrow> b \<in> set run \<union> set rest \<Longrightarrow>
             orderNegative (c a b) \<longleftrightarrow> k b < k a"
      and "sorted_wrt (\<lambda>a b. k b \<le> k a) run"
  shows "sorted_wrt (\<lambda>a b. k b \<le> k a) (binaryInsertionSort c run rest)"
  using assms unfolding binaryInsertionSort_def
proof (induction rest arbitrary: run)
  case Nil
  then show ?case by simp
next
  case (Cons x rest)
  have s: "sorted_wrt (\<lambda>a b. k b \<le> k a) (insertPivot c run x)"
    by (rule insertPivot_sorted) (use Cons.prems in auto)
  have "sorted_wrt (\<lambda>a b. k b \<le> k a) (foldl (insertPivot c) (insertPivot c run x) rest)"
    by (rule Cons.IH [OF _ s]) (use Cons.prems(1) in \<open>auto simp: set_insertPivot\<close>)
  then show ?case by simp
qed

lemma sortBy_sorted:
  fixes k :: "'a \<Rightarrow> 'b::linorder"
  assumes cmp: "\<And>a b. a \<in> set xs \<Longrightarrow> b \<in> set xs \<Longrightarrow> orderNegative (c a b) \<longleftrightarrow> k b < k a"
  shows "sorted_wrt (\<lambda>a b. k b \<le> k a) (sortBy c xs)"
proof -
  obtain run rest where r: "countAndMakeRun c xs = (run, rest)"
    by (cases "countAndMakeRun c xs")
  from countAndMakeRun_mset [OF r] have "set run \<union> set rest = set xs"
    by (metis set_mset_mset set_mset_union)
  then have cmp': "\<And>a b. a \<in> set run \<union> set rest \<Longrightarrow> b \<in> set run \<union> set rest \<Longrightarrow>
             orderNegative (c a b) \<longleftrightarrow> k b < k a"
    using cmp by simp
  from countAndMakeRun_sorted [of xs c k, OF cmp r]
  have "sorted_wrt (\<lambda>a b. k b \<le> k a) run" by simp
  from binaryInsertionSort_sorted [of run rest c k, OF cmp' this]
  show ?thesis by (simp add: sortBy_def r)
qed

lemma sortBy_first_greatest:
  fixes k :: "'a \<Rightarrow> 'b::linorder"
  assumes cmp: "\<And>a b. a \<in> set xs \<Longrightarrow> b \<in> set xs \<Longrightarrow> orderNegative (c a b) \<longleftrightarrow> k b < k a"
      and "xs \<noteq> []"
  shows "\<exists>first. index0 (sortBy c xs) = Some first \<and> first \<in> set xs \<and>
           (\<forall>x\<in>set xs. k x \<le> k first)"
proof -
  have "sortBy c xs \<noteq> []" using assms(2) length_sortBy [of c xs] by auto
  then obtain first others where f: "sortBy c xs = first # others"
    by (cases "sortBy c xs") auto
  from sortBy_sorted [of xs c k, OF cmp] have "\<forall>x\<in>set others. k x \<le> k first"
    unfolding f by simp
  then have "\<forall>x\<in>set (sortBy c xs). k x \<le> k first" unfolding f by simp
  moreover have "first \<in> set (sortBy c xs)" unfolding f by simp
  ultimately show ?thesis using f unfolding set_sortBy by (simp add: index0_def)
qed

lemma bitLength_bounds: "0 < n \<Longrightarrow> 2 ^ (bitLength n - 1) \<le> n \<and> n < 2 ^ bitLength n"
proof (induction n rule: bitLength.induct)
  case (1 n)
  show ?case
  proof (cases "n div 2 = 0")
    case True
    with 1 have "n = 1" by (simp add: div_eq_0_iff) 
    then show ?thesis by (simp add: bitLength.simps)
  next
    case False
    then have "0 < n div 2" by simp
    with 1 have IH: "2 ^ (bitLength (n div 2) - 1) \<le> n div 2" "n div 2 < 2 ^ bitLength (n div 2)"
      by auto
    have b: "bitLength n = Suc (bitLength (n div 2))" using 1(2) by (simp add: bitLength.simps)
    have p: "0 < bitLength (n div 2)" using \<open>0 < n div 2\<close> by (simp add: bitLength.simps)
    then obtain k where k: "bitLength (n div 2) = Suc k" by (cases "bitLength (n div 2)") auto
    from IH show ?thesis unfolding b k by auto
  qed
qed

lemma toDouble_negative: "orderNegative (toDouble d) \<longleftrightarrow> d < 0"
proof (cases "nat \<bar>d\<bar> < 2 ^ 53")
  case True
  then show ?thesis by (simp add: toDouble_def js_greater_def orderNegative_def)
next
  case False
  define a where "a = nat \<bar>d\<bar>"
  define e where "e = bitLength a - 53"
  define q where "q = a div 2 ^ e"
  have a: "2 ^ 53 \<le> a" using False by (simp add: a_def)
  then have a0: "0 < a" by (smt (verit) zero_less_numeral zero_less_power less_le_trans)
  from bitLength_bounds [OF a0] have lo: "2 ^ (bitLength a - 1) \<le> a" by auto
  have "(2::nat) ^ e \<le> 2 ^ (bitLength a - 1)" unfolding e_def by (rule power_increasing) auto
  with lo have "2 ^ e \<le> a" by linarith
  then have q: "0 < q" unfolding q_def by (simp add: div_greater_zero_iff)
  show ?thesis
    using False q
    unfolding toDouble_def Let_def a_def [symmetric] e_def [symmetric] q_def [symmetric]
    by (auto simp: js_greater_def orderNegative_def a_def zero_less_mult_iff mult_less_0_iff)
qed

text \<open>The numbers other than \<^verbatim>\<open>NaN\<close> in their order. Between two of them the comparator of
  the sort is negative exactly when the second key is the smaller: two infinities of the
  same sign give \<^verbatim>\<open>NaN\<close>, which counts as 0, and they are equal.\<close>

lemma js_minus_negative:
  assumes "a \<noteq> NaN" and "b \<noteq> NaN"
  shows "orderNegative (js_minus b a) \<longleftrightarrow> js_greater a b"
proof (cases a; cases b)
  fix m n assume "a = Num m" "b = Num n"
  then show ?thesis
    using toDouble_negative [of "n - m"] by (simp add: js_minus_def js_greater_def)
qed (use assms in \<open>simp_all add: js_minus_def js_greater_def orderNegative_def\<close>)

lemma js_greater_rank:
  assumes "a \<noteq> NaN" and "b \<noteq> NaN"
  shows "js_greater a b \<longleftrightarrow>
           (case b of MinusInfinity \<Rightarrow> (0::nat, 0::int) | Num n \<Rightarrow> (1, n) | _ \<Rightarrow> (2, 0))
         < (case a of MinusInfinity \<Rightarrow> (0, 0) | Num n \<Rightarrow> (1, n) | _ \<Rightarrow> (2, 0))"
  using assms by (cases a; cases b) (simp_all add: js_greater_def)

lemma sortBy_byExpiresDate_greatest:
  assumes "xs \<noteq> []"
      and "\<forall>t\<in>set xs. parseIntProp (expires_date_ms t) \<noteq> NaN"
  shows "\<exists>latest.
           index0 (sortBy byExpiresDate xs) = Some latest \<and> latest \<in> set xs \<and>
           (\<forall>t\<in>set xs. \<not> js_greater (parseIntProp (expires_date_ms t))
                              (parseIntProp (expires_date_ms latest)))"
proof -
  define k where
    "k t = (case parseIntProp (expires_date_ms t) of
              MinusInfinity \<Rightarrow> (0::nat, 0::int) | Num n \<Rightarrow> (1, n) | _ \<Rightarrow> (2, 0))"
    for t :: transaction
  have gr: "js_greater (parseIntProp (expires_date_ms a)) (parseIntProp (expires_date_ms b))
      \<longleftrightarrow> k b < k a" if "a \<in> set xs" "b \<in> set xs" for a b
    unfolding k_def by (rule js_greater_rank) (use assms(2) that in auto)
  have cmp: "orderNegative (byExpiresDate a b) \<longleftrightarrow> k b < k a"
    if "a \<in> set xs" "b \<in> set xs" for a b
    using js_minus_negative [of "parseIntProp (expires_date_ms a)"
        "parseIntProp (expires_date_ms b)"] gr [OF that] assms(2) that
    by (simp add: byExpiresDate_def)
  from sortBy_first_greatest [of xs byExpiresDate k, OF cmp assms(1)]
  obtain latest where l: "index0 (sortBy byExpiresDate xs) = Some latest" "latest \<in> set xs"
    "\<forall>x\<in>set xs. k x \<le> k latest"
    by blast
  have "\<forall>t\<in>set xs. \<not> js_greater (parseIntProp (expires_date_ms t))
                              (parseIntProp (expires_date_ms latest))"
    using l(2,3) gr by (auto simp: not_less)
  with l(1,2) show ?thesis by blast
qed

subsection \<open>The responses of \<open>classify\<close>\<close>

lemma classify_accepted:
  assumes "status r = Some 0" and "qdot (receipt r) bundle_id = Some ''com.elevenstoic.app''"
  shows "classify (Some r) environment currentDate isoNow =
           bindE (checkSubscription r environment currentDate) (\<lambda>st.
             finalResponse r environment st isoNow)"
  using assms by (simp add: classify_def bindE_def dot_def checkStatus_def checkBundleId_def)

lemma finalResponse_unfold:
  "finalResponse response environment st isoNow =
     Inr (respond 200
            (if fst st then corsHeaders @ [(''Cache-Control'', ''private, max-age=300'')]
             else corsHeaders)
            (noKeys\<lparr>isValid := Some (fst st), environment' := Some environment,
               subscriptionInfo' := snd st, timestamp := Some isoNow,
               debug := (if environment = sandbox
                         then (case debugInfo response of Inr d \<Rightarrow> Some d | Inl e \<Rightarrow> None)
                         else None)\<rparr>))"
  by (simp add: finalResponse_def Let_def debugInfo_unfold bindE_def noKeys_def)

lemma later_methods_keep_valid:
  "method2 r environment (True, i) = Inr (True, i)"
  "method3 r environment (True, i) = Inr (True, i)"
  "sandboxFallback r environment (True, i) = (True, i)"
  by (simp_all add: method2_unfold method3_unfold sandboxFallback_def)

lemma method1_any_environment:
  "method1 r environment currentDate = Inr (False, None) \<Longrightarrow>
   method1 r environment2 currentDate = Inr (False, None)"
  by (auto simp: method1_unfold split: option.splits if_splits)

lemma method2_any_environment:
  "method2 r environment (False, None) = Inr (False, None) \<Longrightarrow>
   method2 r environment2 (False, None) = Inr (False, None)"
  by (auto simp: method2_unfold split: option.splits if_splits)

lemma handler_adopted:
  assumes "passesInput req receiptData"
      and "fst (selectEnvironment fetch receiptData) = Inr (response, environment)"
  shows "fst (handler req fetch currentDate isoNow) =
           (case classify response environment currentDate isoNow of
              Inl error \<Rightarrow> catchBlock error
            | Inr returned \<Rightarrow> returned)"
  using assms(2)
  by (cases "selectEnvironment fetch receiptData")
     (simp add: handler_passesInput [OF assms(1)] split: sum.splits)

lemmas run_defs =
  classify_def checkStatus_def checkBundleId_def checkSubscription_def
  method1_unfold method2_unfold method3_unfold sandboxFallback_def finalResponse_unfold
  debugInfo_unfold bindE_def qdot_def sort_defs index0_def isMonthly_def
  byExpiresDate_def byPurchaseDate_def js_minus_def js_greater_def parse_defs
  orElse_def statusMeanings_def catchBlock_def

subsection \<open>A state that is valid has its \<^verbatim>\<open>subscriptionInfo\<close>\<close>

lemma checkSubscription_returns:
  "\<exists>st. checkSubscription r environment currentDate = Inr st"
  by (simp add: checkSubscription_def method1_unfold method2_unfold method3_unfold bindE_def)

lemma method1_info:
  "method1 r environment currentDate = Inr st \<Longrightarrow> fst st \<Longrightarrow> snd st \<noteq> None"
  by (auto simp: method1_unfold split: option.splits if_splits)

lemma method2_info:
  "method2 r environment st = Inr st' \<Longrightarrow> (fst st \<Longrightarrow> snd st \<noteq> None) \<Longrightarrow> fst st' \<Longrightarrow> snd st' \<noteq> None"
  by (auto simp: method2_unfold split: option.splits if_splits)

lemma method3_info:
  "method3 r environment st = Inr st' \<Longrightarrow> (fst st \<Longrightarrow> snd st \<noteq> None) \<Longrightarrow> fst st' \<Longrightarrow> snd st' \<noteq> None"
  by (auto simp: method3_unfold split: option.splits if_splits)

lemma sandboxFallback_info:
  "(fst st \<Longrightarrow> snd st \<noteq> None) \<Longrightarrow> fst (sandboxFallback r environment st) \<Longrightarrow>
   snd (sandboxFallback r environment st) \<noteq> None"
  by (auto simp: sandboxFallback_def split: if_splits)

lemma checkSubscription_info:
  assumes "checkSubscription r environment currentDate = Inr st" and "fst st"
  shows "snd st \<noteq> None"
proof -
  from assms(1) obtain st1 st2 st3 where
    1: "method1 r environment currentDate = Inr st1" and
    2: "method2 r environment st1 = Inr st2" and
    3: "method3 r environment st2 = Inr st3" and
    4: "st = sandboxFallback r environment st3"
    by (auto simp: checkSubscription_def bindE_def split: sum.splits)
  have i1: "fst st1 \<Longrightarrow> snd st1 \<noteq> None" using method1_info [OF 1] .
  have i2: "fst st2 \<Longrightarrow> snd st2 \<noteq> None" using method2_info [OF 2] i1 by blast
  have i3: "fst st3 \<Longrightarrow> snd st3 \<noteq> None" using method3_info [OF 3] i2 by blast
  show ?thesis using sandboxFallback_info [of st3 r environment] i3 assms(2) 4 by blast
qed

subsection \<open>Every verdict is of one of the two shapes\<close>

lemma selectEnvironment_returned:
  "fst (selectEnvironment fetch receiptData) = Inl returned \<Longrightarrow> returned = bothFailed"
  by (auto simp: selectEnvironment_def split: prod.splits sum.splits)

lemma catchBlock_payload:
  "\<exists>v. payload (catchBlock error) = Some v \<and> isValid v = Some False \<and> error' v \<noteq> None \<and>
        environment' v = None \<and> subscriptionInfo' v = None"
  by (simp add: catchBlock_def respond_def noKeys_def)

lemma bothFailed_payload:
  "\<exists>v. payload bothFailed = Some v \<and> isValid v = Some False \<and> error' v \<noteq> None \<and>
        environment' v = None \<and> subscriptionInfo' v = None"
  by (simp add: bothFailed_def respond_def noKeys_def)

lemma classify_cases:
  "classify (Some r) environment currentDate isoNow =
     (if status r \<noteq> Some 0 then Inr (the (checkStatus r))
      else if qdot (receipt r) bundle_id \<noteq> Some ''com.elevenstoic.app''
           then Inr (the (checkBundleId r))
      else bindE (checkSubscription r environment currentDate) (\<lambda>st.
             finalResponse r environment st isoNow))"
  by (simp add: classify_def bindE_def dot_def checkStatus_def checkBundleId_def Let_def)

lemma checkStatus_payload:
  "status r \<noteq> Some 0 \<Longrightarrow>
   \<exists>v. checkStatus r = Some (respond 200 corsHeaders v) \<and> isValid v = Some False \<and>
       error' v \<noteq> None \<and> environment' v = None \<and> subscriptionInfo' v = None"
  by (simp add: checkStatus_def noKeys_def Let_def respond_def)

lemma checkBundleId_payload:
  "qdot (receipt r) bundle_id \<noteq> Some ''com.elevenstoic.app'' \<Longrightarrow>
   \<exists>v. checkBundleId r = Some (respond 200 corsHeaders v) \<and> isValid v = Some False \<and>
       error' v \<noteq> None \<and> environment' v = None \<and> subscriptionInfo' v = None"
  by (simp add: checkBundleId_def noKeys_def respond_def)

lemma payload_respond:
  "payload (respond code hs v) = Some v" "statusCode (respond code hs v) = code"
  by (simp_all add: respond_def)

lemma classify_object:
  "\<exists>out v. classify (Some r) environment currentDate isoNow = Inr out \<and>
     statusCode out = 200 \<and> payload out = Some v \<and>
     wellFormed v \<and> (isValid v = Some True \<longrightarrow> subscriptionInfo' v \<noteq> None)"
proof (cases "status r \<noteq> Some 0")
  case True
  from checkStatus_payload [OF True] obtain v where
    v: "checkStatus r = Some (respond 200 corsHeaders v)" "isValid v = Some False"
      "error' v \<noteq> None" "environment' v = None" "subscriptionInfo' v = None"
    by blast
  have "classify (Some r) environment currentDate isoNow = Inr (respond 200 corsHeaders v)"
    using True v(1) by (simp add: classify_cases)
  moreover have "wellFormed v" using v by (simp add: wellFormed_def)
  ultimately show ?thesis using v(2) payload_respond by fastforce
next
  case s: False
  show ?thesis
  proof (cases "qdot (receipt r) bundle_id \<noteq> Some ''com.elevenstoic.app''")
    case True
    from checkBundleId_payload [OF True] obtain v where
      v: "checkBundleId r = Some (respond 200 corsHeaders v)" "isValid v = Some False"
        "error' v \<noteq> None" "environment' v = None" "subscriptionInfo' v = None"
      by blast
    have "classify (Some r) environment currentDate isoNow = Inr (respond 200 corsHeaders v)"
      using s True v(1) by (simp add: classify_cases)
    moreover have "wellFormed v" using v by (simp add: wellFormed_def)
    ultimately show ?thesis using v(2) payload_respond by fastforce
  next
    case False
    obtain st where st: "checkSubscription r environment currentDate = Inr st"
      using checkSubscription_returns by blast
    have i: "fst st \<Longrightarrow> snd st \<noteq> None" using checkSubscription_info [OF st] .
    let ?v = "noKeys\<lparr>isValid := Some (fst st), environment' := Some environment,
               subscriptionInfo' := snd st, timestamp := Some isoNow,
               debug := (if environment = sandbox
                         then (case debugInfo r of Inr d \<Rightarrow> Some d | Inl e \<Rightarrow> None)
                         else None)\<rparr>"
    let ?hs = "if fst st then corsHeaders @ [(''Cache-Control'', ''private, max-age=300'')]
             else corsHeaders"
    have c: "classify (Some r) environment currentDate isoNow = Inr (respond 200 ?hs ?v)"
      using s False st by (simp add: classify_cases bindE_def finalResponse_unfold)
    have w: "wellFormed ?v" by (simp add: wellFormed_def noKeys_def)
    have j: "isValid ?v = Some True \<longrightarrow> subscriptionInfo' ?v \<noteq> None"
      using i by (simp add: noKeys_def)
    show ?thesis
      using c w j payload_respond [of 200 ?hs ?v] by blast
  qed
qed

lemma classify_null:
  "classify None environment currentDate isoNow = Inl TypeError"
  by (simp add: classify_def bindE_def dot_def)

lemma handler_payload:
  assumes "payload (fst (handler req fetch currentDate isoNow)) = Some v"
      and "isValid v \<noteq> None"
  shows "wellFormed v \<and> (isValid v = Some True \<longrightarrow> subscriptionInfo' v \<noteq> None)"
proof (cases "\<exists>receiptData. passesInput req receiptData")
  case True
  then obtain receiptData where p: "passesInput req receiptData" by blast
  show ?thesis
  proof (cases "fst (selectEnvironment fetch receiptData)")
    case (Inl returned)
    then have "fst (handler req fetch currentDate isoNow) = bothFailed"
      using selectEnvironment_returned [OF Inl]
      by (cases "selectEnvironment fetch receiptData") (simp add: handler_passesInput [OF p])
    then show ?thesis using assms bothFailed_payload by (auto simp: wellFormed_def)
  next
    case (Inr a)
    obtain response environment where a: "a = (response, environment)" by (cases a)
    note h = handler_adopted [OF p Inr [unfolded a], of currentDate isoNow]
    show ?thesis
    proof (cases response)
      case None
      then show ?thesis
        using h assms catchBlock_payload [of TypeError]
        by (auto simp: classify_null wellFormed_def)
    next
      case (Some r)
      from classify_object [of r environment currentDate isoNow] obtain out v' where
        "classify (Some r) environment currentDate isoNow = Inr out" "payload out = Some v'"
        "wellFormed v'" "isValid v' = Some True \<longrightarrow> subscriptionInfo' v' \<noteq> None"
        by blast
      then show ?thesis using h assms Some by simp
    qed
  qed
next
  case False
  then have "\<exists>v'. payload (fst (handler req fetch currentDate isoNow)) = Some v' \<and> isValid v' = Some False \<and> error' v' \<noteq> None \<and>
        environment' v' = None \<and> subscriptionInfo' v' = None \<or> 
        (\<forall>v'. payload (fst (handler req fetch currentDate isoNow)) = Some v' \<longrightarrow> isValid v' = None)"
    using catchBlock_payload [of TypeError]
    by (auto simp: passesInput_def handler_def tryBlock_def dot_def respond_def noKeys_def
        split: option.splits)
  then show ?thesis using assms by (auto simp: wellFormed_def)
qed

lemma handler_wellFormed:
  assumes "passesInput req receiptData"
  shows "\<exists>v. payload (fst (handler req fetch currentDate isoNow)) = Some v \<and> wellFormed v"
proof (cases "fst (selectEnvironment fetch receiptData)")
  case (Inl returned)
  then have "fst (handler req fetch currentDate isoNow) = bothFailed"
    using selectEnvironment_returned [OF Inl]
    by (cases "selectEnvironment fetch receiptData") (simp add: handler_passesInput [OF assms])
  then show ?thesis using bothFailed_payload by (auto simp: wellFormed_def)
next
  case (Inr a)
  obtain response environment where a: "a = (response, environment)" by (cases a)
  note h = handler_adopted [OF assms Inr [unfolded a], of currentDate isoNow]
  show ?thesis
  proof (cases response)
    case None
    then show ?thesis
      using h catchBlock_payload [of TypeError] by (auto simp: classify_null wellFormed_def)
  next
    case (Some r)
    from classify_object [of r environment currentDate isoNow] obtain out v' where
      "classify (Some r) environment currentDate isoNow = Inr out" "payload out = Some v'"
      "wellFormed v'"
      by blast
    then show ?thesis using h Some by simp
  qed
qed

subsection \<open>The clock is read by method 1 only\<close>

lemma method1_same_test:
  assumes "\<And>lri latest. latest_receipt_info r = Some lri \<Longrightarrow>
             index0 (sortBy byExpiresDate (filter isMonthly lri)) = Some latest \<Longrightarrow>
             js_greater (parseIntProp (expires_date_ms latest)) (Num (now1 - 5 * 60 * 1000))
               = js_greater (parseIntProp (expires_date_ms latest)) (Num (now2 - 5 * 60 * 1000))"
  shows "method1 r environment now1 = method1 r environment now2"
proof (cases "latest_receipt_info r")
  case None
  then show ?thesis by (simp add: method1_unfold)
next
  case (Some lri)
  show ?thesis
  proof (cases "index0 (sortBy byExpiresDate (filter isMonthly lri))")
    case None
    then show ?thesis using Some by (simp add: method1_unfold)
  next
    case (Some latest)
    with assms [OF \<open>latest_receipt_info r = Some lri\<close> Some] \<open>latest_receipt_info r = Some lri\<close>
    show ?thesis by (simp add: method1_unfold)
  qed
qed

lemma withoutTimestamp_respond:
  "withoutTimestamp (respond code hs v) = respond code hs (v\<lparr>timestamp := None\<rparr>)"
  by (simp add: withoutTimestamp_def respond_def)

lemma classify_same:
  assumes "method1 r environment now1 = method1 r environment now2"
  shows "map_sum id withoutTimestamp (classify (Some r) environment now1 ts1)
       = map_sum id withoutTimestamp (classify (Some r) environment now2 ts2)"
proof -
  obtain st where st: "checkSubscription r environment now1 = Inr st"
    using checkSubscription_returns by blast
  then have st2: "checkSubscription r environment now2 = Inr st"
    using assms by (simp add: checkSubscription_def)
  show ?thesis
    using st st2
    by (simp add: classify_cases bindE_def finalResponse_unfold withoutTimestamp_respond)
qed

subsection \<open>The calls made to the upstream\<close>

lemma selectEnvironment_stub_answers:
  "selectEnvironment (stub (answers r) s) ''receipt'' =
    (if status r = Some 21007 then
       (case validateWithApple (stub (answers r) s) ''receipt'' SANDBOX_URL [PRODUCTION_URL] of
          (Inr response', calls') \<Rightarrow> (Inr (response', sandbox), calls')
        | (Inl e, calls') \<Rightarrow> (case validateWithApple (stub (answers r) s) ''receipt'' SANDBOX_URL calls' of
             (Inr response, calls'') \<Rightarrow> (Inr (response, sandbox), calls'')
           | (Inl e', calls'') \<Rightarrow> (Inl bothFailed, calls'')))
     else (Inr (Some r, production), [PRODUCTION_URL]))"
  by (simp add: selectEnvironment_def tryProduction_def validateWithApple_def dot_def stub_def
      answers_def split: prod.splits sum.splits fetch_outcome.splits)

lemma both_attempts_fail:
  assumes "passesInput req receiptData"
      and "fst (validateWithApple fetch receiptData PRODUCTION_URL []) = Inl e1"
      and "fst (validateWithApple fetch receiptData SANDBOX_URL [PRODUCTION_URL]) = Inl e2"
  shows "handler req fetch currentDate isoNow = (bothFailed, [PRODUCTION_URL, SANDBOX_URL])"
proof -
  have l: "snd (validateWithApple fetch receiptData url calls) = calls @ [url]" for url calls
    by (simp add: validateWithApple_def split: fetch_outcome.splits)
  obtain c1 where 1: "validateWithApple fetch receiptData PRODUCTION_URL [] = (Inl e1, c1)"
    using assms(2) by (cases "validateWithApple fetch receiptData PRODUCTION_URL []") simp
  with l [of PRODUCTION_URL "[]"] have c1: "c1 = [PRODUCTION_URL]" by simp
  obtain c2 where
    2: "validateWithApple fetch receiptData SANDBOX_URL [PRODUCTION_URL] = (Inl e2, c2)"
    using assms(3)
    by (cases "validateWithApple fetch receiptData SANDBOX_URL [PRODUCTION_URL]") simp
  with l [of SANDBOX_URL "[PRODUCTION_URL]"] have c2: "c2 = [PRODUCTION_URL, SANDBOX_URL]"
    by simp
  show ?thesis
    using 1 2 unfolding c1 c2
    by (simp add: handler_passesInput [OF assms(1)] selectEnvironment_def tryProduction_def)
qed

lemma calls_at_most_three:
  "length (snd (handler req fetch currentDate isoNow)) \<le> 3"
  by (auto simp: handler_def tryBlock_def selectEnvironment_def tryProduction_def
      validateWithApple_def dot_def
      split: option.splits prod.splits sum.splits fetch_outcome.splits if_splits)

lemma no_sandbox_after_other_status:
  assumes "passesInput req receiptData"
      and "fetch 0 PRODUCTION_URL receiptData = Resolves True code text (Inr (Some p))"
      and "status p \<noteq> Some 21007"
  shows "snd (handler req fetch currentDate isoNow) = [PRODUCTION_URL]"
  using assms(2,3) by (simp add: handler_passesInput [OF assms(1)] upstream_defs split: sum.splits)

section \<open>Production first, then sandbox\<close>

text \<open>
  C1. The property claimed: a request makes at most two upstream calls, and the sandbox
  is called only after a failed production call or after a production answer with
  status 21007. The handler does not keep the bound: the call to the sandbox on status
  21007 (line 90) stands inside the \<^verbatim>\<open>try\<close> of line 82, so when it fails the
  \<^verbatim>\<open>catch (prodError)\<close> of line 93 calls the sandbox again. With production answering
  21007 and a sandbox that times out, the calls are production, sandbox, sandbox and the
  response is the 500 of line 103; when the second sandbox call answers, the response
  sent is the one classified from that third call.
\<close>

theorem reroute_failure_calls_sandbox_twice:
  "handler exampleRequest (stub (answers (bareResponse 21007)) timesOut) 0
     ''2026-01-01T00:00:00.000Z'' =
     (bothFailed, [PRODUCTION_URL, SANDBOX_URL, SANDBOX_URL]) \<and>
   snd (handler exampleRequest flaky 0 ''2026-01-01T00:00:00.000Z'')
     = [PRODUCTION_URL, SANDBOX_URL, SANDBOX_URL] \<and>
   classify (Some (accepted None)) sandbox 0 ''2026-01-01T00:00:00.000Z''
     = Inr (fst (handler exampleRequest flaky 0 ''2026-01-01T00:00:00.000Z''))"
  by (simp add: handler_passesInput [OF exampleRequest_passes] upstream_defs flaky_def stub_def
      answers_def timesOut_def bareResponse_def classify_cases accepted_def
      checkSubscription_def method1_unfold method2_unfold method3_unfold bindE_def
      finalResponse_unfold ownReceipt_def qdot_def sandboxFallback_def)

text \<open>
  C2. When the production call succeeds with status 21007 and the call to the sandbox
  that follows returns a decoded body, the calls are exactly production then sandbox,
  the sandbox body is adopted with the environment \<^verbatim>\<open>sandbox\<close> whatever status it
  carries, and the response sent is the one classified from it. The key \<^verbatim>\<open>environment\<close>
  of that response is \<^verbatim>\<open>'sandbox'\<close> when the sandbox body has status 0 and the bundle id
  of the app; in every other case the response has no key \<^verbatim>\<open>environment\<close>.
\<close>

theorem reroute_adopts_sandbox:
  assumes "passesInput req receiptData"
      and "fetch 0 PRODUCTION_URL receiptData = Resolves True code text (Inr (Some p))"
      and "status p = Some 21007"
      and "fetch 1 SANDBOX_URL receiptData = Resolves True code2 text2 (Inr response)"
  shows "selectEnvironment fetch receiptData
           = (Inr (response, sandbox), [PRODUCTION_URL, SANDBOX_URL]) \<and>
         handler req fetch currentDate isoNow =
           (case classify response sandbox currentDate isoNow of
              Inl error \<Rightarrow> catchBlock error
            | Inr returned \<Rightarrow> returned,
            [PRODUCTION_URL, SANDBOX_URL]) \<and>
         (\<exists>v. payload (fst (handler req fetch currentDate isoNow)) = Some v \<and>
              environment' v =
                (if \<exists>r. response = Some r \<and> status r = Some 0 \<and>
                       qdot (receipt r) bundle_id = Some ''com.elevenstoic.app''
                 then Some sandbox else None))"
proof -
  have sel: "selectEnvironment fetch receiptData
           = (Inr (response, sandbox), [PRODUCTION_URL, SANDBOX_URL])"
    using assms(2-4) by (simp add: upstream_defs)
  have h: "handler req fetch currentDate isoNow =
           (case classify response sandbox currentDate isoNow of
              Inl error \<Rightarrow> catchBlock error
            | Inr returned \<Rightarrow> returned,
            [PRODUCTION_URL, SANDBOX_URL])"
    by (simp add: handler_passesInput [OF assms(1)] sel split: sum.splits)
  have e: "\<exists>v. payload (fst (handler req fetch currentDate isoNow)) = Some v \<and>
              environment' v =
                (if \<exists>r. response = Some r \<and> status r = Some 0 \<and>
                       qdot (receipt r) bundle_id = Some ''com.elevenstoic.app''
                 then Some sandbox else None)"
  proof (cases response)
    case None
    then show ?thesis
      using catchBlock_payload [of TypeError] by (auto simp: h classify_null)
  next
    case (Some r)
    show ?thesis
    proof (cases "status r \<noteq> Some 0")
      case True
      with checkStatus_payload [OF True] show ?thesis
        using Some by (auto simp: h classify_cases payload_respond)
    next
      case s: False
      show ?thesis
      proof (cases "qdot (receipt r) bundle_id \<noteq> Some ''com.elevenstoic.app''")
        case True
        with checkBundleId_payload [OF True] show ?thesis
          using Some s by (auto simp: h classify_cases payload_respond)
      next
        case False
        obtain st where st: "checkSubscription r sandbox currentDate = Inr st"
          using checkSubscription_returns by blast
        show ?thesis
          using Some s False st
          by (simp add: h classify_cases bindE_def finalResponse_unfold payload_respond noKeys_def)
      qed
    qed
  qed
  from sel h e show ?thesis by blast
qed

text \<open>The theorem at a sandbox answer with status 0.\<close>

theorem reroute_adopts_sandbox_witness:
  "passesInput exampleRequest ''receipt'' \<and>
   status (bareResponse 21007) = Some 21007 \<and>
   handler exampleRequest
     (stub (answers (bareResponse 21007)) (answers (accepted None))) 0
     ''2026-01-01T00:00:00.000Z'' =
     (case classify (Some (accepted None)) sandbox 0 ''2026-01-01T00:00:00.000Z'' of
        Inl error \<Rightarrow> catchBlock error
      | Inr returned \<Rightarrow> returned,
      [PRODUCTION_URL, SANDBOX_URL]) \<and>
   map_option environment' (payload (fst (handler exampleRequest
     (stub (answers (bareResponse 21007)) (answers (accepted None))) 0
     ''2026-01-01T00:00:00.000Z''))) = Some (Some sandbox)"
proof -
  let ?fetch = "stub (answers (bareResponse 21007)) (answers (accepted None))"
  have f0: "?fetch 0 PRODUCTION_URL ''receipt'' = Resolves True 200 ''OK'' (Inr (Some (bareResponse 21007)))"
    by (simp add: stub_def answers_def)
  have f1: "?fetch 1 SANDBOX_URL ''receipt'' = Resolves True 200 ''OK'' (Inr (Some (accepted None)))"
    by (simp add: stub_def answers_def)
  have s: "status (bareResponse 21007) = Some 21007" by (simp add: bareResponse_def)
  have c: "\<exists>r. Some (accepted None) = Some r \<and> status r = Some 0 \<and>
                       qdot (receipt r) bundle_id = Some ''com.elevenstoic.app''"
    by (simp add: accepted_def ownReceipt_def qdot_def)
  from reroute_adopts_sandbox [where req = exampleRequest and receiptData = "''receipt''"
      and fetch = ?fetch and p = "bareResponse 21007" and response = "Some (accepted None)"
      and currentDate = 0 and isoNow = "''2026-01-01T00:00:00.000Z''",
      OF exampleRequest_passes f0 s f1] c
  show ?thesis using exampleRequest_passes s by auto
qed

text \<open>As first stated, with the key \<^verbatim>\<open>environment\<close> equal to \<^verbatim>\<open>'sandbox'\<close> whatever the status
  of the sandbox answer, the property fails: a sandbox answer with status 21003 gives the
  generic failure object, which has no key \<^verbatim>\<open>environment\<close>.\<close>

theorem reroute_adopts_sandbox_counterexample:
  "status (bareResponse 21007) = Some 21007 \<and>
   handler exampleRequest
     (stub (answers (bareResponse 21007)) (answers (bareResponse 21003))) 0
     ''2026-01-01T00:00:00.000Z'' =
     (respond 200 corsHeaders
        (noKeys\<lparr>isValid := Some False,
           error' := Some ''Receipt validation failed: The receipt could not be authenticated.'',
           status' := Some 21003\<rparr>),
      [PRODUCTION_URL, SANDBOX_URL]) \<and>
   map_option environment' (payload (fst (handler exampleRequest
     (stub (answers (bareResponse 21007)) (answers (bareResponse 21003))) 0
     ''2026-01-01T00:00:00.000Z''))) \<noteq> Some (Some sandbox)"
  by (simp add: handler_passesInput [OF exampleRequest_passes] upstream_defs stub_def
      answers_def bareResponse_def classify_cases checkStatus_def orElse_def qdot_def
      statusMeanings_def respond_def noKeys_def)

text \<open>
  C5. The property claimed: when both attempts fail, the HTTP status tells the cause, 408
  for a timeout and 502 for a network failure. The handler does not do so: both failures
  are caught by the inner \<^verbatim>\<open>catch\<close> clauses (lines 93 and 101), which answer 500 with
  \<^verbatim>\<open>{isValid: false, error: 'Receipt validation failed with Apple'}\<close> whatever the errors
  were. The statuses 408 and 502 belong to the outer \<^verbatim>\<open>catch\<close> (lines 286 to 298), which
  no error of an upstream call reaches.
\<close>

theorem both_attempts_fail_status_500:
  "handler exampleRequest (stub timesOut timesOut) 0 ''2026-01-01T00:00:00.000Z'' =
     (respond 500 corsHeaders
        (noKeys\<lparr>isValid := Some False, error' := Some ''Receipt validation failed with Apple''\<rparr>),
      [PRODUCTION_URL, SANDBOX_URL]) \<and>
   handler exampleRequest (stub unreachable unreachable) 0 ''2026-01-01T00:00:00.000Z'' =
     (respond 500 corsHeaders
        (noKeys\<lparr>isValid := Some False, error' := Some ''Receipt validation failed with Apple''\<rparr>),
      [PRODUCTION_URL, SANDBOX_URL]) \<and>
   statusCode (catchBlock (JsError ''AbortError'' (Some ''This operation was aborted''))) = 408 \<and>
   statusCode (catchBlock (JsError ''TypeError'' (Some ''fetch failed''))) = 502"
  by (simp add: handler_passesInput [OF exampleRequest_passes] upstream_defs stub_def
      timesOut_def unreachable_def catchBlock_def respond_def)

section \<open>The status 21006\<close>

text \<open>
  C6. Whenever the adopted response has the status 21006, the response sent is
  \<^verbatim>\<open>{isValid: false, error: 'Subscription has expired', status: 21006, expired: true}\<close>
  with HTTP status 200, whatever else the adopted response holds and whichever
  environment it came from. Every other status that is not 0 gives the generic object
  \<^verbatim>\<open>{isValid: false, error: 'Receipt validation failed: ...', status}\<close>, which has no key
  \<^verbatim>\<open>expired\<close>.
\<close>

theorem expired_status_verdict:
  assumes "passesInput req receiptData"
      and "fst (selectEnvironment fetch receiptData) = Inr (Some r, environment)"
      and "status r = Some 21006"
  shows "fst (handler req fetch currentDate isoNow) =
           respond 200 corsHeaders
             (noKeys\<lparr>isValid := Some False, error' := Some ''Subscription has expired'',
                status' := Some 21006, expired := Some True\<rparr>)
         \<and> (\<forall>r'. status r' \<noteq> Some 0 \<and> status r' \<noteq> Some 21006 \<longrightarrow>
               checkStatus r' =
                 Some (respond 200 corsHeaders
                   (noKeys\<lparr>isValid := Some False,
                      error' := Some (''Receipt validation failed: '' @
                        orElse (qdot (status r') statusMeanings) ''Unknown error''),
                      status' := status r'\<rparr>)))"
proof
  show "fst (handler req fetch currentDate isoNow) =
           respond 200 corsHeaders
             (noKeys\<lparr>isValid := Some False, error' := Some ''Subscription has expired'',
                status' := Some 21006, expired := Some True\<rparr>)"
    using assms(2,3) classify_bad_status [of r environment currentDate isoNow]
    by (cases "selectEnvironment fetch receiptData")
       (simp add: handler_passesInput [OF assms(1)] checkStatus_def)
next
  show "\<forall>r'. status r' \<noteq> Some 0 \<and> status r' \<noteq> Some 21006 \<longrightarrow>
               checkStatus r' =
                 Some (respond 200 corsHeaders
                   (noKeys\<lparr>isValid := Some False,
                      error' := Some (''Receipt validation failed: '' @
                        orElse (qdot (status r') statusMeanings) ''Unknown error''),
                      status' := status r'\<rparr>))"
    by (simp add: checkStatus_def)
qed

theorem expired_status_verdict_witness:
  "passesInput exampleRequest ''receipt'' \<and>
   fst (selectEnvironment (stub (answers ((accepted (Some [monthly ''1'']))\<lparr>status := Some 21006\<rparr>)) timesOut) ''receipt'')
     = Inr (Some ((accepted (Some [monthly ''1'']))\<lparr>status := Some 21006\<rparr>), production) \<and>
   fst (handler exampleRequest (stub (answers ((accepted (Some [monthly ''1'']))\<lparr>status := Some 21006\<rparr>)) timesOut) 5 ''2026-01-01T00:00:00.000Z'') =
     respond 200 corsHeaders
       (noKeys\<lparr>isValid := Some False, error' := Some ''Subscription has expired'',
          status' := Some 21006, expired := Some True\<rparr>) \<and>
   checkStatus (bareResponse 21003) =
     Some (respond 200 corsHeaders
       (noKeys\<lparr>isValid := Some False,
          error' := Some ''Receipt validation failed: The receipt could not be authenticated.'',
          status' := Some 21003\<rparr>))"
proof -
  let ?r = "(accepted (Some [monthly ''1'']))\<lparr>status := Some 21006\<rparr>"
  have p: "passesInput exampleRequest ''receipt''"
    by (simp add: example_defs)
  have s: "fst (selectEnvironment (stub (answers ?r) timesOut) ''receipt'') = Inr (Some ?r, production)"
    by (simp add: upstream_defs answers_def stub_def accepted_def)
  have st: "status ?r = Some 21006" by simp
  have g: "checkStatus (bareResponse 21003) =
     Some (respond 200 corsHeaders
       (noKeys\<lparr>isValid := Some False,
          error' := Some ''Receipt validation failed: The receipt could not be authenticated.'',
          status' := Some 21003\<rparr>))"
    using expired_status_verdict [OF p s st, of 5 "''2026-01-01T00:00:00.000Z''"]
    by (simp add: bareResponse_def orElse_def qdot_def statusMeanings_def)
  show ?thesis
    using p s g expired_status_verdict [OF p s st, of 5 "''2026-01-01T00:00:00.000Z''"]
    by blast
qed

section \<open>The subscription checks\<close>

text \<open>
  C3. For an adopted response with status 0 whose \<^verbatim>\<open>latest_receipt_info\<close> has at least
  one transaction of the monthly product, none of them with an \<^verbatim>\<open>expires_date_ms\<close> that
  \<^verbatim>\<open>parseInt\<close> turns into \<^verbatim>\<open>NaN\<close>: method 1 selects a transaction of the product than
  whose expiry no other is greater as a number (of two such transactions with expiries
  \<open>T1 < T2\<close>, the one with \<open>T2\<close>), and sets the validity flag exactly when that expiry
  exceeds now minus 5 minutes, with the subscription info of that transaction. When the
  bundle id matches as well, the response is the final one for that state if the expiry
  is within the grace period (\<^verbatim>\<open>isValid: true\<close>), and otherwise the final one for whatever
  methods 2 and 3 and the sandbox fallback decide.
\<close>

theorem latest_receipt_info_scan:
  assumes "status r = Some 0"
      and "latest_receipt_info r = Some lri"
      and "\<exists>t\<in>set lri. isMonthly t"
      and "\<forall>t\<in>set lri. isMonthly t \<longrightarrow> parseIntProp (expires_date_ms t) \<noteq> NaN"
  shows "\<exists>latest.
           index0 (sortBy byExpiresDate (filter isMonthly lri)) = Some latest \<and>
           latest \<in> set lri \<and> isMonthly latest \<and>
           (\<forall>t\<in>set lri. isMonthly t \<longrightarrow>
              \<not> js_greater (parseIntProp (expires_date_ms t))
                   (parseIntProp (expires_date_ms latest))) \<and>
           (\<forall>a b T1 T2.
              set (filter isMonthly lri) = {a, b} \<and>
              parseIntProp (expires_date_ms a) = Num T1 \<and>
              parseIntProp (expires_date_ms b) = Num T2 \<and> T1 < T2 \<longrightarrow>
              latest = b) \<and>
           method1 r environment currentDate =
             Inr (if js_greater (parseIntProp (expires_date_ms latest))
                       (Num (currentDate - 5 * 60 * 1000))
                  then (True,
                         Some (ActiveSubscription (product_id latest)
                           (newDate (parseIntProp (expires_date_ms latest)))
                           (transaction_id latest) environment
                           (is_trial_period latest = Some ''true'')
                           (is_in_intro_offer_period latest = Some ''true'')))
                  else (False, None)) \<and>
           (qdot (receipt r) bundle_id = Some ''com.elevenstoic.app'' \<longrightarrow>
              classify (Some r) environment currentDate isoNow =
                (if js_greater (parseIntProp (expires_date_ms latest))
                      (Num (currentDate - 5 * 60 * 1000))
                 then finalResponse r environment
                        (True,
                         Some (ActiveSubscription (product_id latest)
                           (newDate (parseIntProp (expires_date_ms latest)))
                           (transaction_id latest) environment
                           (is_trial_period latest = Some ''true'')
                           (is_in_intro_offer_period latest = Some ''true''))) isoNow
                 else bindE (method2 r environment (False, None)) (\<lambda>st2.
                      bindE (method3 r environment st2) (\<lambda>st3.
                      finalResponse r environment (sandboxFallback r environment st3) isoNow))))"
proof -
  let ?rel = "filter isMonthly lri"
  have ne: "?rel \<noteq> []" using assms(3) by (auto simp: filter_empty_conv)
  have nums: "\<forall>t\<in>set ?rel. parseIntProp (expires_date_ms t) \<noteq> NaN"
    using assms(4) by simp
  from sortBy_byExpiresDate_greatest [OF ne nums]
  obtain latest where
    sel: "index0 (sortBy byExpiresDate ?rel) = Some latest" and
    mem: "latest \<in> set ?rel" and
    mx: "\<forall>t\<in>set ?rel. \<not> js_greater (parseIntProp (expires_date_ms t))
                             (parseIntProp (expires_date_ms latest))"
    by blast
  let ?active = "js_greater (parseIntProp (expires_date_ms latest))
      (Num (currentDate - 5 * 60 * 1000))"
  let ?info = "ActiveSubscription (product_id latest)
      (newDate (parseIntProp (expires_date_ms latest))) (transaction_id latest)
      environment (is_trial_period latest = Some ''true'')
      (is_in_intro_offer_period latest = Some ''true'')"
  have two: "latest = b"
    if "set ?rel = {a, b} \<and> parseIntProp (expires_date_ms a) = Num T1 \<and>
        parseIntProp (expires_date_ms b) = Num T2 \<and> T1 < T2" for a b T1 T2
  proof -
    from that have ab: "set ?rel = {a, b}" and a: "parseIntProp (expires_date_ms a) = Num T1"
      and b: "parseIntProp (expires_date_ms b) = Num T2" and lt: "T1 < T2" by auto
    have "\<not> js_greater (parseIntProp (expires_date_ms b))
              (parseIntProp (expires_date_ms latest))"
      using mx ab by auto
    then have "latest \<noteq> a" using a b lt by (auto simp: js_greater_def)
    moreover have "latest = a \<or> latest = b" using mem ab by auto
    ultimately show ?thesis by simp
  qed
  have m1: "method1 r environment currentDate =
      Inr (if ?active then (True, Some ?info) else (False, None))"
    using assms(2) sel by (simp add: method1_unfold)
  have cl: "classify (Some r) environment currentDate isoNow =
      (if ?active
       then finalResponse r environment (True, Some ?info) isoNow
       else bindE (method2 r environment (False, None)) (\<lambda>st2.
            bindE (method3 r environment st2) (\<lambda>st3.
            finalResponse r environment (sandboxFallback r environment st3) isoNow)))"
    if b: "qdot (receipt r) bundle_id = Some ''com.elevenstoic.app''"
  proof (cases ?active)
    case True
    then show ?thesis
      using m1 by (simp add: classify_accepted [OF assms(1) b] checkSubscription_def bindE_def
          later_methods_keep_valid)
  next
    case False
    then show ?thesis
      using m1 by (simp add: classify_accepted [OF assms(1) b] checkSubscription_def bindE_def
          split: sum.splits)
  qed
  have mem': "latest \<in> set lri" "isMonthly latest" using mem by auto
  have mx': "\<forall>t\<in>set lri. isMonthly t \<longrightarrow>
              \<not> js_greater (parseIntProp (expires_date_ms t))
                   (parseIntProp (expires_date_ms latest))"
    using mx by simp
  show ?thesis
    using sel mem' mx' two m1 cl by (intro exI [of _ latest]) blast
qed

text \<open>The theorem at the expiries \<^verbatim>\<open>"9"\<close> and \<^verbatim>\<open>"10"\<close>, of which \<^verbatim>\<open>"9"\<close> is the greater as
  a string: with now minus the grace period at 9, the transaction selected is the one
  expiring at 10 and the subscription is active.\<close>

theorem latest_receipt_info_scan_witness:
  "status (accepted (Some [monthly ''9'', monthly ''10''])) = Some 0 \<and>
   parseIntProp (expires_date_ms (monthly ''9'')) = Num 9 \<and>
   parseIntProp (expires_date_ms (monthly ''10'')) = Num 10 \<and>
   index0 (sortBy byExpiresDate (filter isMonthly [monthly ''9'', monthly ''10'']))
     = Some (monthly ''10'') \<and>
   method1 (accepted (Some [monthly ''9'', monthly ''10''])) production 300009 =
     Inr (True,
       Some (ActiveSubscription (Some ''com.elevenstoic.monthly'') (Num 10) (Some ''1000000'')
         production False False)) \<and>
   classify (Some (accepted (Some [monthly ''9'', monthly ''10'']))) production 300009
       ''2026-01-01T00:00:00.000Z'' =
     finalResponse (accepted (Some [monthly ''9'', monthly ''10''])) production
       (True,
        Some (ActiveSubscription (Some ''com.elevenstoic.monthly'') (Num 10) (Some ''1000000'')
          production False False))
       ''2026-01-01T00:00:00.000Z''"
proof -
  let ?lri = "[monthly ''9'', monthly ''10'']"
  let ?r = "accepted (Some ?lri)"
  let ?ts = "''2026-01-01T00:00:00.000Z''"
  have h1: "status ?r = Some 0" by (simp add: accepted_def)
  have h2: "latest_receipt_info ?r = Some ?lri" by (simp add: accepted_def)
  have h3: "\<exists>t\<in>set ?lri. isMonthly t" by (simp add: isMonthly_def monthly_def)
  have n9: "parseIntProp (expires_date_ms (monthly ''9'')) = Num 9"
    by (simp add: monthly_def parse_defs)
  have n10: "parseIntProp (expires_date_ms (monthly ''10'')) = Num 10"
    by (simp add: monthly_def parse_defs)
  have h4: "\<forall>t\<in>set ?lri. isMonthly t \<longrightarrow> parseIntProp (expires_date_ms t) \<noteq> NaN"
    using n9 n10 by simp
  have b: "qdot (receipt ?r) bundle_id = Some ''com.elevenstoic.app''"
    by (simp add: accepted_def ownReceipt_def qdot_def)
  have rel: "set (filter isMonthly ?lri) = {monthly ''9'', monthly ''10''}"
    by (simp add: isMonthly_def monthly_def)
  from latest_receipt_info_scan [OF h1 h2 h3 h4, of production 300009 ?ts]
  obtain latest where
    sel: "index0 (sortBy byExpiresDate (filter isMonthly ?lri)) = Some latest" and
    two: "\<forall>a b T1 T2.
              set (filter isMonthly ?lri) = {a, b} \<and>
              parseIntProp (expires_date_ms a) = Num T1 \<and>
              parseIntProp (expires_date_ms b) = Num T2 \<and> T1 < T2 \<longrightarrow>
              latest = b" and
    m1: "method1 ?r production 300009 =
           Inr (if js_greater (parseIntProp (expires_date_ms latest))
                     (Num (300009 - 5 * 60 * 1000))
                then (True,
                       Some (ActiveSubscription (product_id latest)
                         (newDate (parseIntProp (expires_date_ms latest)))
                         (transaction_id latest) production
                         (is_trial_period latest = Some ''true'')
                         (is_in_intro_offer_period latest = Some ''true'')))
                else (False, None))" and
    cl: "qdot (receipt ?r) bundle_id = Some ''com.elevenstoic.app'' \<longrightarrow>
           classify (Some ?r) production 300009 ?ts =
             (if js_greater (parseIntProp (expires_date_ms latest))
                   (Num (300009 - 5 * 60 * 1000))
              then finalResponse ?r production
                     (True,
                      Some (ActiveSubscription (product_id latest)
                        (newDate (parseIntProp (expires_date_ms latest)))
                        (transaction_id latest) production
                        (is_trial_period latest = Some ''true'')
                        (is_in_intro_offer_period latest = Some ''true''))) ?ts
              else bindE (method2 ?r production (False, None)) (\<lambda>st2.
                   bindE (method3 ?r production st2) (\<lambda>st3.
                   finalResponse ?r production (sandboxFallback ?r production st3) ?ts)))"
    by blast
  have l: "latest = monthly ''10''"
    using two [rule_format, of "monthly ''9''" "monthly ''10''" 9 10] rel n9 n10 by simp
  have f: "product_id (monthly ''10'') = Some ''com.elevenstoic.monthly''"
    "transaction_id (monthly ''10'') = Some ''1000000''"
    "(is_trial_period (monthly ''10'') = Some ''true'') = False"
    "(is_in_intro_offer_period (monthly ''10'') = Some ''true'') = False"
    by (simp_all add: monthly_def)
  have d: "newDate (Num 10) = Num 10" by (simp add: newDate_def)
  show ?thesis
    using h1 n9 n10 sel m1 cl b unfolding l f n10 d by (simp add: js_greater_def)
qed

text \<open>As first stated the property fails in two ways. With the expiries 1 and 2 long past
  and the purchase listed in \<^verbatim>\<open>receipt.in_app\<close>, method 2 makes the verdict valid, so
  \<^verbatim>\<open>isValid\<close> is not the test \<open>T2 > now - gracePeriod\<close>. And with the expiries \<^verbatim>\<open>"5"\<close>,
  \<^verbatim>\<open>"x"\<close> and \<^verbatim>\<open>"9"\<close>, every comparison with the second is \<^verbatim>\<open>NaN\<close>, the sort leaves the
  array as it is and the transaction selected expires at 5, not at 9: at a clock where 9
  is within the grace period and 5 is not, the subscription is not marked active.\<close>

theorem latest_receipt_info_scan_counterexample:
  "status expiredWithPurchase = Some 0 \<and>
   latest_receipt_info expiredWithPurchase = Some [monthly ''1'', monthly ''2''] \<and>
   map_option isValid
     (payload (fst (handler exampleRequest (stub (answers expiredWithPurchase) timesOut)
        1000000 ''2026-01-01T00:00:00.000Z''))) = Some (Some True) \<and>
   \<not> ((2::int) > 1000000 - 5 * 60 * 1000) \<and>
   parseIntProp (expires_date_ms (monthly ''9'')) = Num 9 \<and>
   (9::int) > 300007 - 5 * 60 * 1000 \<and>
   index0 (sortBy byExpiresDate (filter isMonthly [monthly ''5'', monthly ''x'', monthly ''9'']))
     = Some (monthly ''5'') \<and>
   method1 (accepted (Some [monthly ''5'', monthly ''x'', monthly ''9''])) production 300007
     = Inr (False, None) \<and>
   map_option isValid
     (payload (fst (handler exampleRequest
        (stub (answers (accepted (Some [monthly ''5'', monthly ''x'', monthly ''9'']))) timesOut)
        300007 ''2026-01-01T00:00:00.000Z''))) = Some (Some False)"
  by (simp add: handler_passesInput [OF exampleRequest_passes] selectEnvironment_stub_answers
      expiredWithPurchase_def accepted_def ownReceipt_def
      classify_def checkStatus_def checkBundleId_def checkSubscription_def
      method1_unfold method2_unfold method3_unfold sandboxFallback_def finalResponse_unfold
      bindE_def dot_def qdot_def sort_defs index0_def isMonthly_def monthly_def purchase_def
      byExpiresDate_def byPurchaseDate_def
      js_minus_def js_greater_def parse_defs respond_def noKeys_def)

text \<open>Two expiries that differ as digit strings and parse to the same double are a tie, and
  the sort keeps the first of them first.\<close>

lemma parseInt_rounds:
  "parseInt ''9007199254740993'' = Num 9007199254740992 \<and>
   index0 (sortBy byExpiresDate
     (filter isMonthly [monthly ''9007199254740992'', monthly ''9007199254740993'']))
     = Some (monthly ''9007199254740992'')"
  by (simp add: sort_defs index0_def isMonthly_def monthly_def byExpiresDate_def js_minus_def
      js_greater_def parse_defs bitLength.simps)

text \<open>A no-break space before the digits is skipped, and a date beyond 8.64e15
  milliseconds is invalid.\<close>

lemma parseInt_skips_no_break_space:
  "parseInt [CHR 0xA0, CHR ''1'', CHR ''2''] = Num 12 \<and>
   newDate (parseInt ''8640000000000001'') = NaN \<and>
   newDate (parseInt ''8640000000000000'') = Num 8640000000000000"
  by (simp add: parse_defs)

text \<open>With the expiries 4, 5, \<^verbatim>\<open>"x"\<close> and 8 the run found is 4, 5, reversed to 5, 4; the
  binary insertion leaves \<^verbatim>\<open>"x"\<close> behind them and puts 8 first.\<close>

lemma sortBy_with_unparsable:
  "sortBy byExpiresDate [monthly ''4'', monthly ''5'', monthly ''x'', monthly ''8'']
     = [monthly ''8'', monthly ''5'', monthly ''4'', monthly ''x'']"
  by (simp add: sort_defs monthly_def byExpiresDate_def js_minus_def js_greater_def parse_defs)

text \<open>
  C10. When the transaction that method 1 selects has an \<^verbatim>\<open>expires_date_ms\<close> that does not
  parse (\<^verbatim>\<open>parseInt\<close> gives \<^verbatim>\<open>NaN\<close>), method 1 throws nothing and leaves the state at
  \<^verbatim>\<open>(false, null)\<close>, and the checks go on with method 2 from that state: a purchase of
  the product in \<^verbatim>\<open>receipt.in_app\<close> then makes the subscription valid.
\<close>

theorem unparsable_expiry_falls_through:
  assumes "latest_receipt_info r = Some lri"
      and "index0 (sortBy byExpiresDate (filter isMonthly lri)) = Some latest"
      and "parseIntProp (expires_date_ms latest) = NaN"
  shows "method1 r environment currentDate = Inr (False, None) \<and>
         checkSubscription r environment currentDate =
           bindE (method2 r environment (False, None)) (\<lambda>st2.
           bindE (method3 r environment st2) (\<lambda>st3.
           Inr (sandboxFallback r environment st3))) \<and>
         (\<forall>inApp p. qdot (receipt r) in_app = Some inApp \<and>
             index0 (sortBy byPurchaseDate (filter isMonthly inApp)) = Some p \<longrightarrow>
             checkSubscription r environment currentDate =
               Inr (True, Some (PastPurchase (product_id p) (transaction_id p) environment
                 (newDate (parseIntProp (purchase_date_ms p))))))"
proof -
  have m1: "method1 r environment currentDate = Inr (False, None)"
    using assms by (simp add: method1_unfold js_greater_def)
  have cs: "checkSubscription r environment currentDate =
           bindE (method2 r environment (False, None)) (\<lambda>st2.
           bindE (method3 r environment st2) (\<lambda>st3.
           Inr (sandboxFallback r environment st3)))"
    using m1 by (simp add: checkSubscription_def bindE_def)
  have "checkSubscription r environment currentDate =
               Inr (True, Some (PastPurchase (product_id p) (transaction_id p) environment
                 (newDate (parseIntProp (purchase_date_ms p)))))"
    if "qdot (receipt r) in_app = Some inApp"
      and "index0 (sortBy byPurchaseDate (filter isMonthly inApp)) = Some p" for inApp p
    using that by (simp add: cs method2_unfold bindE_def later_methods_keep_valid)
  with m1 cs show ?thesis by blast
qed

theorem unparsable_expiry_falls_through_witness:
  "latest_receipt_info undatedWithPurchase = Some [(monthly ''7'')\<lparr>expires_date_ms := None\<rparr>] \<and>
   parseIntProp (expires_date_ms ((monthly ''7'')\<lparr>expires_date_ms := None\<rparr>)) = NaN \<and>
   method1 undatedWithPurchase production 0 = Inr (False, None) \<and>
   checkSubscription undatedWithPurchase production 0 =
     Inr (True, Some (PastPurchase (Some ''com.elevenstoic.monthly'') (Some ''2000000'')
       production (Num 5)))"
proof -
  let ?t = "(monthly ''7'')\<lparr>expires_date_ms := None\<rparr>"
  have h1: "latest_receipt_info undatedWithPurchase = Some [?t]"
    by (simp add: undatedWithPurchase_def)
  have h2: "index0 (sortBy byExpiresDate (filter isMonthly [?t])) = Some ?t"
    by (simp add: sort_defs index0_def isMonthly_def monthly_def)
  have h3: "parseIntProp (expires_date_ms ?t) = NaN"
    by (simp add: parse_defs)
  have q: "qdot (receipt undatedWithPurchase) in_app = Some [purchase ''5'']"
    by (simp add: undatedWithPurchase_def qdot_def)
  have s: "index0 (sortBy byPurchaseDate (filter isMonthly [purchase ''5''])) = Some (purchase ''5'')"
    by (simp add: sort_defs index0_def isMonthly_def purchase_def)
  have p: "product_id (purchase ''5'') = Some ''com.elevenstoic.monthly''"
    "transaction_id (purchase ''5'') = Some ''2000000''"
    "newDate (parseIntProp (purchase_date_ms (purchase ''5''))) = Num 5"
    by (simp_all add: purchase_def parse_defs)
  show ?thesis
    using unparsable_expiry_falls_through [OF h1 h2 h3, of production 0] h1 h3 q s p
    by metis
qed

text \<open>
  C4. For an adopted response with status 0 and the bundle id of the app on which
  methods 1, 2 and 3 find nothing: adopted from the sandbox, the verdict is valid with the
  fallback \<^verbatim>\<open>subscriptionInfo\<close>; the same response adopted from production gives
  \<^verbatim>\<open>isValid: false\<close> with \<^verbatim>\<open>subscriptionInfo: null\<close>.
\<close>

theorem sandbox_fallback_verdict:
  assumes "passesInput req receiptData"
      and "fst (selectEnvironment fetchS receiptData) = Inr (Some r, sandbox)"
      and "fst (selectEnvironment fetchP receiptData) = Inr (Some r, production)"
      and "status r = Some 0"
      and "qdot (receipt r) bundle_id = Some ''com.elevenstoic.app''"
      and "method1 r sandbox currentDate = Inr (False, None)"
      and "method2 r sandbox (False, None) = Inr (False, None)"
      and "method3 r sandbox (False, None) = Inr (False, None)"
  shows "(\<exists>v. payload (fst (handler req fetchS currentDate isoNow)) = Some v \<and>
              isValid v = Some True \<and>
              subscriptionInfo' v = Some (SandboxFallback ''com.elevenstoic.monthly'' sandbox True) \<and>
              environment' v = Some sandbox) \<and>
         (\<exists>v. payload (fst (handler req fetchP currentDate isoNow)) = Some v \<and>
              isValid v = Some False \<and> subscriptionInfo' v = None \<and>
              environment' v = Some production)"
proof
  have "checkSubscription r sandbox currentDate =
          Inr (True, Some (SandboxFallback ''com.elevenstoic.monthly'' sandbox True))"
    using assms(5-8) by (simp add: checkSubscription_def bindE_def sandboxFallback_def)
  then show "\<exists>v. payload (fst (handler req fetchS currentDate isoNow)) = Some v \<and>
              isValid v = Some True \<and>
              subscriptionInfo' v = Some (SandboxFallback ''com.elevenstoic.monthly'' sandbox True) \<and>
              environment' v = Some sandbox"
    by (simp add: handler_adopted [OF assms(1,2)] classify_accepted [OF assms(4,5)]
        bindE_def finalResponse_unfold respond_def noKeys_def)
next
  have "method3 r production (False, None) = Inr (False, None)"
    by (simp add: method3_unfold)
  then have "checkSubscription r production currentDate = Inr (False, None)"
    using method1_any_environment [OF assms(6), of production]
      method2_any_environment [OF assms(7), of production]
    by (simp add: checkSubscription_def bindE_def sandboxFallback_def)
  then show "\<exists>v. payload (fst (handler req fetchP currentDate isoNow)) = Some v \<and>
              isValid v = Some False \<and> subscriptionInfo' v = None \<and>
              environment' v = Some production"
    by (simp add: handler_adopted [OF assms(1,3)] classify_accepted [OF assms(4,5)]
        bindE_def finalResponse_unfold respond_def noKeys_def)
qed

theorem sandbox_fallback_verdict_witness:
  "passesInput exampleRequest ''receipt'' \<and>
   fst (selectEnvironment (stub timesOut (answers (accepted None))) ''receipt'')
     = Inr (Some (accepted None), sandbox) \<and>
   fst (selectEnvironment (stub (answers (accepted None)) timesOut) ''receipt'')
     = Inr (Some (accepted None), production) \<and>
   method1 (accepted None) sandbox 0 = Inr (False, None) \<and>
   method2 (accepted None) sandbox (False, None) = Inr (False, None) \<and>
   method3 (accepted None) sandbox (False, None) = Inr (False, None) \<and>
   map_option isValid (payload (fst (handler exampleRequest
     (stub timesOut (answers (accepted None))) 0 ''2026-01-01T00:00:00.000Z''))) = Some (Some True) \<and>
   map_option subscriptionInfo' (payload (fst (handler exampleRequest
     (stub timesOut (answers (accepted None))) 0 ''2026-01-01T00:00:00.000Z'')))
     = Some (Some (SandboxFallback ''com.elevenstoic.monthly'' sandbox True)) \<and>
   map_option isValid (payload (fst (handler exampleRequest
     (stub (answers (accepted None)) timesOut) 0 ''2026-01-01T00:00:00.000Z''))) = Some (Some False)"
proof -
  let ?r = "accepted None"
  have hS: "fst (selectEnvironment (stub timesOut (answers ?r)) ''receipt'') = Inr (Some ?r, sandbox)"
    by (simp add: upstream_defs stub_def timesOut_def answers_def)
  have hP: "fst (selectEnvironment (stub (answers ?r) timesOut) ''receipt'') = Inr (Some ?r, production)"
    by (simp add: upstream_defs stub_def timesOut_def answers_def accepted_def)
  have h0: "status ?r = Some 0" by (simp add: accepted_def)
  have hb: "qdot (receipt ?r) bundle_id = Some ''com.elevenstoic.app''"
    by (simp add: accepted_def ownReceipt_def qdot_def)
  have m1: "method1 ?r sandbox 0 = Inr (False, None)"
    by (simp add: method1_unfold accepted_def)
  have m2: "method2 ?r sandbox (False, None) = Inr (False, None)"
    by (simp add: method2_unfold accepted_def ownReceipt_def qdot_def)
  have m3: "method3 ?r sandbox (False, None) = Inr (False, None)"
    by (simp add: method3_unfold accepted_def)
  from sandbox_fallback_verdict [OF exampleRequest_passes hS hP h0 hb m1 m2 m3,
      of "''2026-01-01T00:00:00.000Z''"]
  show ?thesis using exampleRequest_passes hS hP m1 m2 m3 by auto
qed

section \<open>Every verdict\<close>

text \<open>
  C7. Every response of the handler whose verdict has \<^verbatim>\<open>isValid: true\<close> carries a
  \<^verbatim>\<open>subscriptionInfo\<close> that is not \<^verbatim>\<open>null\<close>.
\<close>

theorem valid_verdict_carries_subscriptionInfo:
  assumes "payload (fst (handler req fetch currentDate isoNow)) = Some v"
      and "isValid v = Some True"
  shows "subscriptionInfo' v \<noteq> None"
  using handler_payload [OF assms(1)] assms(2) by simp

theorem valid_verdict_carries_subscriptionInfo_witness:
  "map_option isValid (payload (fst (handler exampleRequest
     (stub (answers expiredWithPurchase) timesOut) 1000000 ''2026-01-01T00:00:00.000Z'')))
     = Some (Some True) \<and>
   map_option subscriptionInfo' (payload (fst (handler exampleRequest
     (stub (answers expiredWithPurchase) timesOut) 1000000 ''2026-01-01T00:00:00.000Z'')))
     \<noteq> Some None"
proof -
  let ?out = "fst (handler exampleRequest
     (stub (answers expiredWithPurchase) timesOut) 1000000 ''2026-01-01T00:00:00.000Z'')"
  obtain v where v: "payload ?out = Some v" and w: "wellFormed v"
    using handler_wellFormed [OF exampleRequest_passes] by blast
  have a: "map_option isValid (payload ?out) = Some (Some True)"
    by (simp add: handler_passesInput [OF exampleRequest_passes] upstream_defs stub_def
        answers_def expiredWithPurchase_def run_defs monthly_def purchase_def respond_def
        noKeys_def)
  with v have "isValid v = Some True" by simp
  from valid_verdict_carries_subscriptionInfo [OF v this] v a show ?thesis by simp
qed

text \<open>
  C8. Whatever the upstream does, a request that passes the input checks gets a response
  with a verdict of one of the two shapes. When the adopted body is an object, with any of
  its properties absent, nothing is thrown after the adoption: the response is the one
  \<open>classify\<close> returns, with HTTP status 200. No method and no read of the debug flags
  throws; an absent \<^verbatim>\<open>latest_receipt_info\<close>, \<^verbatim>\<open>receipt\<close>, \<^verbatim>\<open>receipt.in_app\<close> or
  \<^verbatim>\<open>pending_renewal_info\<close> leaves the state of its method as it was, an absent \<^verbatim>\<open>receipt\<close> or
  \<^verbatim>\<open>bundle_id\<close> is a bundle id mismatch, a transaction without \<^verbatim>\<open>product_id\<close> is not of
  the product, and an absent date parses to \<^verbatim>\<open>NaN\<close>.
\<close>

theorem absent_fields_tolerated:
  assumes "passesInput req receiptData"
  shows "(\<exists>v. payload (fst (handler req fetch currentDate isoNow)) = Some v \<and> wellFormed v) \<and>
         (\<forall>r environment.
            fst (selectEnvironment fetch receiptData) = Inr (Some r, environment) \<longrightarrow>
            classify (Some r) environment currentDate isoNow
              = Inr (fst (handler req fetch currentDate isoNow)) \<and>
            statusCode (fst (handler req fetch currentDate isoNow)) = 200) \<and>
         (\<forall>r environment st.
            (\<exists>st'. method1 r environment currentDate = Inr st') \<and>
            (\<exists>st'. method2 r environment st = Inr st') \<and>
            (\<exists>st'. method3 r environment st = Inr st') \<and>
            (\<exists>d. debugInfo r = Inr d) \<and>
            (latest_receipt_info r = None \<longrightarrow> method1 r environment currentDate = Inr (False, None)) \<and>
            (receipt r = None \<longrightarrow> method2 r environment st = Inr st) \<and>
            (\<forall>rc. receipt r = Some rc \<and> in_app rc = None \<longrightarrow> method2 r environment st = Inr st) \<and>
            (pending_renewal_info r = None \<longrightarrow> method3 r environment st = Inr st) \<and>
            (receipt r = None \<longrightarrow> checkBundleId r \<noteq> None) \<and>
            (\<forall>rc. receipt r = Some rc \<and> bundle_id rc = None \<longrightarrow> checkBundleId r \<noteq> None)) \<and>
         (\<forall>t. (product_id t = None \<longrightarrow> \<not> isMonthly t) \<and>
              (expires_date_ms t = None \<longrightarrow> parseIntProp (expires_date_ms t) = NaN) \<and>
              (purchase_date_ms t = None \<longrightarrow> parseIntProp (purchase_date_ms t) = NaN))"
proof (intro conjI allI impI)
  show "\<exists>v. payload (fst (handler req fetch currentDate isoNow)) = Some v \<and> wellFormed v"
    using handler_wellFormed [OF assms] .
next
  fix r environment
  assume a: "fst (selectEnvironment fetch receiptData) = Inr (Some r, environment)"
  from classify_object [of r environment currentDate isoNow] obtain out where
    out: "classify (Some r) environment currentDate isoNow = Inr out" "statusCode out = 200"
    by blast
  have h: "fst (handler req fetch currentDate isoNow) = out"
    using handler_adopted [OF assms a, of currentDate isoNow] out(1) by simp
  show "classify (Some r) environment currentDate isoNow
          = Inr (fst (handler req fetch currentDate isoNow))"
    using out(1) h by simp
  show "statusCode (fst (handler req fetch currentDate isoNow)) = 200"
    using out(2) h by simp
next
  fix r :: apple_response and environment :: environment and st :: check_state
  show "\<exists>st'. method1 r environment currentDate = Inr st'" by (simp add: method1_unfold)
  show "\<exists>st'. method2 r environment st = Inr st'" by (simp add: method2_unfold)
  show "\<exists>st'. method3 r environment st = Inr st'" by (simp add: method3_unfold)
  show "\<exists>d. debugInfo r = Inr d" by (simp add: debugInfo_unfold)
  show "method1 r environment currentDate = Inr (False, None)" if "latest_receipt_info r = None"
    using that by (simp add: method1_unfold)
  show "method2 r environment st = Inr st" if "receipt r = None"
    using that by (simp add: method2_unfold qdot_def)
  show "method2 r environment st = Inr st" if "receipt r = Some rc \<and> in_app rc = None" for rc
    using that by (simp add: method2_unfold qdot_def)
  show "method3 r environment st = Inr st" if "pending_renewal_info r = None"
    using that by (simp add: method3_unfold)
  show "checkBundleId r \<noteq> None" if "receipt r = None"
    using that by (simp add: checkBundleId_def qdot_def)
  show "checkBundleId r \<noteq> None" if "receipt r = Some rc \<and> bundle_id rc = None" for rc
    using that by (simp add: checkBundleId_def qdot_def)
next
  fix t :: transaction
  show "\<not> isMonthly t" if "product_id t = None" using that by (simp add: isMonthly_def)
  show "parseIntProp (expires_date_ms t) = NaN" if "expires_date_ms t = None"
    using that by (simp add: parse_defs)
  show "parseIntProp (purchase_date_ms t) = NaN" if "purchase_date_ms t = None"
    using that by (simp add: parse_defs)
qed

text \<open>The theorem at three adopted bodies that reach the reads of lines 148 to 280: one
  with the status 0 alone (no \<^verbatim>\<open>receipt\<close>), adopted from production; one with the receipt
  of the app and none of the three arrays, adopted from production; and one with the
  arrays, whose objects lack their properties, adopted from the sandbox.\<close>

theorem absent_fields_tolerated_witness:
  "passesInput exampleRequest ''receipt'' \<and>
   fst (handler exampleRequest (stub (answers (bareResponse 0)) timesOut) 0
         ''2026-01-01T00:00:00.000Z'') =
     respond 200 corsHeaders
       (noKeys\<lparr>isValid := Some False, error' := Some ''Bundle ID mismatch''\<rparr>) \<and>
   fst (handler exampleRequest (stub (answers (accepted None)) timesOut) 0
         ''2026-01-01T00:00:00.000Z'') =
     respond 200 corsHeaders
       (noKeys\<lparr>isValid := Some False, environment' := Some production,
          timestamp := Some ''2026-01-01T00:00:00.000Z''\<rparr>) \<and>
   fst (handler exampleRequest (stub timesOut (answers sparse)) 0
         ''2026-01-01T00:00:00.000Z'') =
     respond 200 (corsHeaders @ [(''Cache-Control'', ''private, max-age=300'')])
       (noKeys\<lparr>isValid := Some True, environment' := Some sandbox,
          subscriptionInfo' := Some (SandboxFallback ''com.elevenstoic.monthly'' sandbox True),
          timestamp := Some ''2026-01-01T00:00:00.000Z'',
          debug := Some \<lparr>hasLatestReceiptInfo = True, hasInApp = True,
                     hasPendingRenewal = True\<rparr>\<rparr>)"
proof -
  let ?ts = "''2026-01-01T00:00:00.000Z''"
  note t = absent_fields_tolerated [OF exampleRequest_passes, THEN conjunct2, THEN conjunct1,
      rule_format, THEN conjunct1]
  have s1: "fst (selectEnvironment (stub (answers (bareResponse 0)) timesOut) ''receipt'')
      = Inr (Some (bareResponse 0), production)"
    by (simp add: upstream_defs stub_def answers_def bareResponse_def)
  have s2: "fst (selectEnvironment (stub (answers (accepted None)) timesOut) ''receipt'')
      = Inr (Some (accepted None), production)"
    by (simp add: upstream_defs stub_def answers_def accepted_def)
  have s3: "fst (selectEnvironment (stub timesOut (answers sparse)) ''receipt'')
      = Inr (Some sparse, sandbox)"
    by (simp add: upstream_defs stub_def answers_def timesOut_def)
  have c1: "classify (Some (bareResponse 0)) production 0 ?ts =
      Inr (respond 200 corsHeaders
        (noKeys\<lparr>isValid := Some False, error' := Some ''Bundle ID mismatch''\<rparr>))"
    by (simp add: classify_cases checkBundleId_def bareResponse_def qdot_def)
  have c2: "classify (Some (accepted None)) production 0 ?ts =
      Inr (respond 200 corsHeaders
        (noKeys\<lparr>isValid := Some False, environment' := Some production,
           timestamp := Some ?ts\<rparr>))"
    by (simp add: classify_cases accepted_def ownReceipt_def qdot_def checkSubscription_def
        method1_unfold method2_unfold method3_unfold sandboxFallback_def bindE_def
        finalResponse_unfold noKeys_def)
  have c3: "classify (Some sparse) sandbox 0 ?ts =
      Inr (respond 200 (corsHeaders @ [(''Cache-Control'', ''private, max-age=300'')])
        (noKeys\<lparr>isValid := Some True, environment' := Some sandbox,
           subscriptionInfo' := Some (SandboxFallback ''com.elevenstoic.monthly'' sandbox True),
           timestamp := Some ?ts,
           debug := Some \<lparr>hasLatestReceiptInfo = True, hasInApp = True,
                      hasPendingRenewal = True\<rparr>\<rparr>))"
    by (simp add: classify_cases sparse_def monthlyOnly_def bare_def qdot_def
        checkSubscription_def method1_unfold method2_unfold method3_unfold sandboxFallback_def
        bindE_def finalResponse_unfold debugInfo_unfold noKeys_def sort_defs index0_def
        isMonthly_def js_greater_def parse_defs)
  from t [OF s1, of 0 ?ts] c1 t [OF s2, of 0 ?ts] c2 t [OF s3, of 0 ?ts] c3
    exampleRequest_passes
  show ?thesis by simp
qed

section \<open>Two runs of the same request\<close>

text \<open>
  C9. Two runs of the handler on the same request against the same deterministic
  upstream, at the clock readings \<open>now1\<close> and \<open>now2\<close>, make the same upstream calls and send
  responses that are equal but for the \<^verbatim>\<open>timestamp\<close>, provided that the test of line 187
  on the transaction that method 1 selects (its expiry exceeds now minus 5 minutes) has the
  same outcome at both readings; equal readings are such.
\<close>

theorem verdict_repeatable_except_timestamp:
  assumes "\<forall>receiptData r environment lri latest.
             passesInput req receiptData \<and>
             fst (selectEnvironment fetch receiptData) = Inr (Some r, environment) \<and>
             latest_receipt_info r = Some lri \<and>
             index0 (sortBy byExpiresDate (filter isMonthly lri)) = Some latest \<longrightarrow>
             js_greater (parseIntProp (expires_date_ms latest)) (Num (now1 - 5 * 60 * 1000))
               = js_greater (parseIntProp (expires_date_ms latest)) (Num (now2 - 5 * 60 * 1000))"
  shows "withoutTimestamp (fst (handler req fetch now1 ts1))
           = withoutTimestamp (fst (handler req fetch now2 ts2)) \<and>
         snd (handler req fetch now1 ts1) = snd (handler req fetch now2 ts2)"
proof (cases "\<exists>receiptData. passesInput req receiptData")
  case False
  then have "handler req fetch now1 ts1 = handler req fetch now2 ts2"
    by (auto simp: passesInput_def handler_def tryBlock_def dot_def split: option.splits)
  then show ?thesis by simp
next
  case True
  then obtain receiptData where p: "passesInput req receiptData" by blast
  obtain x calls where sel: "selectEnvironment fetch receiptData = (x, calls)"
    by (cases "selectEnvironment fetch receiptData")
  show ?thesis
  proof (cases x)
    case (Inl returned)
    then show ?thesis using sel by (simp add: handler_passesInput [OF p])
  next
    case (Inr a)
    obtain response environment where a: "a = (response, environment)" by (cases a)
    show ?thesis
    proof (cases response)
      case None
      then show ?thesis
        using sel Inr a by (simp add: handler_passesInput [OF p] classify_null)
    next
      case (Some r)
      have f: "fst (selectEnvironment fetch receiptData) = Inr (Some r, environment)"
        using sel Inr a Some by simp
      have "method1 r environment now1 = method1 r environment now2"
        using assms p f by (intro method1_same_test) blast
      from classify_same [OF this, of ts1 ts2] show ?thesis
        using sel Inr a Some
        by (auto simp: handler_passesInput [OF p] split: sum.splits)
    qed
  qed
qed

theorem verdict_repeatable_except_timestamp_witness:
  "js_greater (parseIntProp (expires_date_ms (monthly ''1000000''))) (Num (1000000 - 5 * 60 * 1000))
     = js_greater (parseIntProp (expires_date_ms (monthly ''1000000''))) (Num (1000001 - 5 * 60 * 1000)) \<and>
   withoutTimestamp (fst (handler exampleRequest
      (stub (answers (accepted (Some [monthly ''1000000'']))) timesOut)
      1000000 ''2026-01-01T00:00:00.000Z''))
   = withoutTimestamp (fst (handler exampleRequest
      (stub (answers (accepted (Some [monthly ''1000000'']))) timesOut)
      1000001 ''2026-01-01T00:00:00.001Z'')) \<and>
   snd (handler exampleRequest
      (stub (answers (accepted (Some [monthly ''1000000'']))) timesOut)
      1000000 ''2026-01-01T00:00:00.000Z'')
   = snd (handler exampleRequest
      (stub (answers (accepted (Some [monthly ''1000000'']))) timesOut)
      1000001 ''2026-01-01T00:00:00.001Z'')"
proof -
  let ?fetch = "stub (answers (accepted (Some [monthly ''1000000'']))) timesOut"
  have c: "js_greater (parseIntProp (expires_date_ms (monthly ''1000000''))) (Num (1000000 - 5 * 60 * 1000))
     = js_greater (parseIntProp (expires_date_ms (monthly ''1000000''))) (Num (1000001 - 5 * 60 * 1000))"
    by (simp add: monthly_def parse_defs js_greater_def)
  have hyp: "\<forall>receiptData r environment lri latest.
             passesInput exampleRequest receiptData \<and>
             fst (selectEnvironment ?fetch receiptData) = Inr (Some r, environment) \<and>
             latest_receipt_info r = Some lri \<and>
             index0 (sortBy byExpiresDate (filter isMonthly lri)) = Some latest \<longrightarrow>
             js_greater (parseIntProp (expires_date_ms latest)) (Num (1000000 - 5 * 60 * 1000))
               = js_greater (parseIntProp (expires_date_ms latest)) (Num (1000001 - 5 * 60 * 1000))"
  proof (intro allI impI, elim conjE)
    fix receiptData r environment lri latest
    assume p: "passesInput exampleRequest receiptData"
      and s: "fst (selectEnvironment ?fetch receiptData) = Inr (Some r, environment)"
      and l: "latest_receipt_info r = Some lri"
      and i: "index0 (sortBy byExpiresDate (filter isMonthly lri)) = Some latest"
    from p have rd: "receiptData = ''receipt''"
      by (simp add: passesInput_def exampleRequest_def)
    from s have r: "r = accepted (Some [monthly ''1000000''])"
      unfolding rd by (simp add: upstream_defs stub_def answers_def accepted_def)
    from l have "lri = [monthly ''1000000'']" unfolding r by (simp add: accepted_def)
    with i have "latest = monthly ''1000000''"
      by (simp add: sort_defs index0_def isMonthly_def monthly_def)
    with c show "js_greater (parseIntProp (expires_date_ms latest)) (Num (1000000 - 5 * 60 * 1000))
               = js_greater (parseIntProp (expires_date_ms latest)) (Num (1000001 - 5 * 60 * 1000))"
      by simp
  qed
  from verdict_repeatable_except_timestamp [OF hyp,
      of "''2026-01-01T00:00:00.000Z''" "''2026-01-01T00:00:00.001Z''"] c
  show ?thesis by blast
qed

text \<open>Without the proviso the property fails: a subscription that expires at 1000000 is
  active when the clock reads 1000000 and lapsed when it reads 2000000.\<close>

theorem verdict_repeatable_except_timestamp_counterexample:
  "withoutTimestamp (fst (handler exampleRequest
      (stub (answers (accepted (Some [monthly ''1000000'']))) timesOut)
      1000000 ''2026-01-01T00:00:00.000Z''))
   \<noteq> withoutTimestamp (fst (handler exampleRequest
      (stub (answers (accepted (Some [monthly ''1000000'']))) timesOut)
      2000000 ''2026-01-01T00:00:00.000Z''))"
  by (simp add: handler_passesInput [OF exampleRequest_passes] selectEnvironment_stub_answers
      run_defs dot_def accepted_def
      ownReceipt_def monthly_def withoutTimestamp_def respond_def noKeys_def)

end
